theory Spec2Isabelle
  imports Complex_Main
begin

section \<open>Common values\<close>

text \<open>
  Python strings are modelled as \<^typ>\<open>string\<close>; a character stands for a code point
  below 256, which covers every literal of the modelled sources. Wall-clock readings
  (\<open>time.time()\<close>, \<open>datetime.utcnow()\<close>) and sleep durations are \<^typ>\<open>real\<close> numbers.
\<close>

datatype exn =
    ValueError string
  | RuntimeError string
  | TypeError string
  | AttributeError string
  | OtherError string

text \<open>\<open>str(e)\<close> and \<open>type(e).__name__\<close>.\<close>

fun str_of_exn :: "exn \<Rightarrow> string" where
  "str_of_exn (ValueError m) = m"
| "str_of_exn (RuntimeError m) = m"
| "str_of_exn (TypeError m) = m"
| "str_of_exn (AttributeError m) = m"
| "str_of_exn (OtherError m) = m"

fun type_name :: "exn \<Rightarrow> string" where
  "type_name (ValueError m) = ''ValueError''"
| "type_name (RuntimeError m) = ''RuntimeError''"
| "type_name (TypeError m) = ''TypeError''"
| "type_name (AttributeError m) = ''AttributeError''"
| "type_name (OtherError m) = ''Exception''"

section \<open>\<open>src/tools/crm_tool.py\<close>: the retry decorator\<close>

text \<open>
  The decorated coroutine is a state transformer \<open>func\<close> on a state \<open>'s\<close> that either
  raises (\<open>Inl\<close>) or returns (\<open>Inr\<close>). The wrapper's environment records, next to that
  state, every \<open>asyncio.sleep\<close> duration in order and the number of times \<open>func\<close> was
  entered.
\<close>

record 's retry_env =
  inner :: 's
  slept :: "real list"
  calls :: nat

definition enter :: "'s retry_env \<Rightarrow> 's \<Rightarrow> 's retry_env" where
  "enter env s' = env\<lparr>inner := s', calls := calls env + 1\<rparr>"

definition asyncio_sleep :: "real \<Rightarrow> 's retry_env \<Rightarrow> 's retry_env" where
  "asyncio_sleep d env = env\<lparr>slept := slept env @ [d]\<rparr>"

text \<open>
  The body of \<open>wrapper\<close>: \<open>for attempt in range(max_retries)\<close>, with the trailing
  \<open>raise last_error\<close> that is reached only when the range is empty (then \<open>last_error\<close>
  is \<open>None\<close> and Python raises a \<open>TypeError\<close>).
\<close>

function retry_loop ::
  "int \<Rightarrow> int \<Rightarrow> real \<Rightarrow> real \<Rightarrow> ('s \<Rightarrow> (exn + 'a) \<times> 's) \<Rightarrow> exn option \<Rightarrow>
   's retry_env \<Rightarrow> (exn + 'a) \<times> 's retry_env" where
  "retry_loop attempt max_retries current_delay backoff func last_error env =
     (if attempt < max_retries then
        (let (r, s') = func (inner env); env' = enter env s' in
         case r of
           Inr v \<Rightarrow> (Inr v, env')
         | Inl e \<Rightarrow>
             if attempt < max_retries - 1
             then retry_loop (attempt + 1) max_retries (current_delay * backoff) backoff func
                    (Some e) (asyncio_sleep current_delay env')
             else (Inl e, env'))
      else
        (case last_error of
           None \<Rightarrow> (Inl (TypeError ''exceptions must derive from BaseException''), env)
         | Some e \<Rightarrow> (Inl e, env)))"
  by pat_completeness auto
termination
  by (relation "measure (\<lambda>(attempt, max_retries, _). nat (max_retries - attempt))") auto

definition retry_on_error ::
  "int \<Rightarrow> real \<Rightarrow> real \<Rightarrow> ('s \<Rightarrow> (exn + 'a) \<times> 's) \<Rightarrow> 's retry_env \<Rightarrow> (exn + 'a) \<times> 's retry_env" where
  "retry_on_error max_retries delay backoff func env =
     retry_loop 0 max_retries delay backoff func None env"

text \<open>The decorator as the tools apply it: \<open>@retry_on_error(max_retries=3, delay=1.0, backoff=2.0)\<close>.\<close>

definition retry_default ::
  "('s \<Rightarrow> (exn + 'a) \<times> 's) \<Rightarrow> 's retry_env \<Rightarrow> (exn + 'a) \<times> 's retry_env" where
  "retry_default func env = retry_on_error 3 1 2 func env"

text \<open>A scripted operation for concrete runs: it pops the next outcome of a list.\<close>

fun scripted :: "(exn + 'a) list \<Rightarrow> (exn + 'a) \<times> (exn + 'a) list" where
  "scripted [] = (Inl (OtherError ''script exhausted''), [])"
| "scripted (r # rs) = (r, rs)"

section \<open>Python strings and values\<close>

text \<open>\<open>sep.join(xs)\<close>.\<close>

fun join :: "string \<Rightarrow> string list \<Rightarrow> string" where
  "join sep [] = []"
| "join sep [x] = x"
| "join sep (x # y # ys) = x @ sep @ join sep (y # ys)"

text \<open>\<open>a in b\<close> on strings: \<open>a\<close> occurs in \<open>b\<close> as a contiguous substring.\<close>

fun startswith :: "string \<Rightarrow> string \<Rightarrow> bool" where
  "startswith [] b = True"
| "startswith (x # a) [] = False"
| "startswith (x # a) (y # b) = (x = y \<and> startswith a b)"

fun str_in :: "string \<Rightarrow> string \<Rightarrow> bool" where
  "str_in a [] = (a = [])"
| "str_in a (y # b) = (startswith a (y # b) \<or> str_in a b)"

text \<open>
  \<open>str.lower()\<close> on code points below 256: the ASCII capitals and the Latin-1 capitals
  0xC0..0xDE (without the multiplication sign 0xD7) move up by 32.
\<close>

definition lower_char :: "char \<Rightarrow> char" where
  "lower_char c =
     (let n = (of_char c :: nat)
      in if (65 \<le> n \<and> n \<le> 90) \<or> (192 \<le> n \<and> n \<le> 222 \<and> n \<noteq> 215)
         then char_of (n + 32) else c)"

definition lower :: "string \<Rightarrow> string" where
  "lower s = map lower_char s"

text \<open>
  Values held in the dictionaries the tools exchange. A dictionary is an association
  list in insertion order with distinct keys; \<open>PTime\<close> stands for a \<open>datetime\<close> and for
  its ISO rendering, both identified with the instant.
\<close>

datatype pyval =
    PNone
  | PBool bool
  | PStr string
  | PInt int
  | PFloat real
  | PTime real
  | PList "pyval list"
  | PDict "(string \<times> pyval) list"

type_synonym pydict = "(string \<times> pyval) list"

definition opt_str :: "string option \<Rightarrow> pyval" where
  "opt_str x = (case x of None \<Rightarrow> PNone | Some s \<Rightarrow> PStr s)"

text \<open>Truthiness of an \<open>Optional[str]\<close>: \<open>None\<close> and the empty string are false.\<close>

definition truthy :: "string option \<Rightarrow> bool" where
  "truthy x = (case x of None \<Rightarrow> False | Some s \<Rightarrow> s \<noteq> [])"

text \<open>\<open>d[k] = v\<close> on a dictionary: overwrite in place or append.\<close>

fun dict_set :: "string \<Rightarrow> 'v \<Rightarrow> (string \<times> 'v) list \<Rightarrow> (string \<times> 'v) list" where
  "dict_set k v [] = [(k, v)]"
| "dict_set k v ((k', v') # d) = (if k = k' then (k, v) # d else (k', v') # dict_set k v d)"

definition dict_get :: "(string \<times> 'v) list \<Rightarrow> string \<Rightarrow> 'v option" where
  "dict_get d k = map_of d k"

definition dict_keys :: "(string \<times> 'v) list \<Rightarrow> string list" where
  "dict_keys d = map fst d"

text \<open>Code-point order on strings, and \<open>sorted(d.items())\<close> by key (insertion sort).\<close>

fun str_le :: "string \<Rightarrow> string \<Rightarrow> bool" where
  "str_le [] b = True"
| "str_le (x # a) [] = False"
| "str_le (x # a) (y # b) =
     ((of_char x :: nat) < of_char y \<or> (x = y \<and> str_le a b))"

fun insert_item :: "string \<times> 'v \<Rightarrow> (string \<times> 'v) list \<Rightarrow> (string \<times> 'v) list" where
  "insert_item kv [] = [kv]"
| "insert_item kv (kv' # d) =
     (if str_le (fst kv) (fst kv') then kv # kv' # d else kv' # insert_item kv d)"

definition sort_items :: "(string \<times> 'v) list \<Rightarrow> (string \<times> 'v) list" where
  "sort_items d = foldr insert_item d []"

section \<open>\<open>src/tools/crm_tool.py\<close>, \<open>catalog_tool.py\<close>, \<open>analytics_tool.py\<close>: the cached clients\<close>

text \<open>
  \<open>CRMTool\<close>, \<open>CatalogTool\<close> and \<open>AnalyticsTool\<close> have the same fields and the same
  \<open>_get_cache_key\<close> and \<open>_is_cache_valid\<close>, so one record stands for a tool of any of the
  three classes: its configuration (\<open>cache_enabled\<close>, \<open>cache_ttl\<close>) and its
  surroundings, which are the clock \<open>time.time()\<close>, read as the next value of a sequence
  of readings, the subtraction of two readings as Python's floats carry it out, and the
  \<open>call\<close> method of the server the tool holds (\<open>crm_server\<close>, \<open>catalog_server\<close> or
  \<open>analytics_server\<close>), a state transformer on the provider's state that raises or
  returns a dictionary.
\<close>

record 'p crm_tool =
  cache_enabled :: bool
  cache_ttl :: int
  time_time :: "nat \<Rightarrow> real"
  float_sub :: "real \<Rightarrow> real \<Rightarrow> real"
  crm_server_call :: "string \<Rightarrow> pydict \<Rightarrow> 'p \<Rightarrow> (exn + pydict) \<times> 'p"

text \<open>
  \<open>json.dumps(parameters, sort_keys=True)\<close> prefixed by the tool name is a one-to-one
  rendering of the tool name and the key-sorted items; the key is kept as that data.
\<close>

type_synonym cache_key = "string \<times> pydict"

definition get_cache_key :: "string \<Rightarrow> pydict \<Rightarrow> cache_key" where
  "get_cache_key tool_name parameters = (tool_name, sort_items parameters)"

text \<open>
  The mutable part: \<open>self._cache\<close>, the provider's state, and two counters kept for the
  proofs, the number of clock readings taken and of \<open>crm_server.call\<close> invocations.
\<close>

record 'p crm_state =
  cache :: "cache_key \<rightharpoonup> pydict \<times> real"
  crm_server :: 'p
  time_reads :: nat
  server_calls :: nat

definition read_time :: "'p crm_tool \<Rightarrow> 'p crm_state \<Rightarrow> real \<times> 'p crm_state" where
  "read_time tool st = (time_time tool (time_reads st), st\<lparr>time_reads := time_reads st + 1\<rparr>)"

definition is_cache_valid :: "'p crm_tool \<Rightarrow> real \<Rightarrow> 'p crm_state \<Rightarrow> bool \<times> 'p crm_state" where
  "is_cache_valid tool cached_time st =
     (if \<not> cache_enabled tool then (False, st)
      else (let (now, st') = read_time tool st
            in (float_sub tool now cached_time < real_of_int (cache_ttl tool), st')))"

text \<open>
  The sequence every cached read method repeats after its parameters are built: look the key up, return a valid entry, otherwise call the
  provider, store the result with the time of storing, and turn any exception into a
  \<open>RuntimeError\<close> with the method's prefix.
\<close>

definition call_and_store ::
  "'p crm_tool \<Rightarrow> string \<Rightarrow> string \<Rightarrow> pydict \<Rightarrow> cache_key \<Rightarrow> 'p crm_state \<Rightarrow>
   (exn + pydict) \<times> 'p crm_state" where
  "call_and_store tool tool_name prefix params cache_key st =
     (let (r, p') = crm_server_call tool tool_name params (crm_server st);
          st1 = st\<lparr>crm_server := p', server_calls := server_calls st + 1\<rparr>
      in case r of
           Inr result \<Rightarrow>
             if cache_enabled tool
             then (let (now, st2) = read_time tool st1
                   in (Inr result, st2\<lparr>cache := (cache st2)(cache_key \<mapsto> (result, now))\<rparr>))
             else (Inr result, st1)
         | Inl e \<Rightarrow> (Inl (RuntimeError (prefix @ str_of_exn e)), st1))"

definition cached_read ::
  "'p crm_tool \<Rightarrow> string \<Rightarrow> string \<Rightarrow> pydict \<Rightarrow> 'p crm_state \<Rightarrow> (exn + pydict) \<times> 'p crm_state" where
  "cached_read tool tool_name prefix params st =
     (let cache_key = get_cache_key tool_name params
      in case (if cache_enabled tool then cache st cache_key else None) of
           Some (cached_data, cached_time) \<Rightarrow>
             (let (valid, st') = is_cache_valid tool cached_time st
              in if valid then (Inr cached_data, st')
                 else call_and_store tool tool_name prefix params cache_key st')
         | None \<Rightarrow> call_and_store tool tool_name prefix params cache_key st)"

text \<open>The parameters \<open>get_lead_info\<close> builds, and the undecorated body of the method.\<close>

definition lead_info_params :: "string option \<Rightarrow> string option \<Rightarrow> pydict" where
  "lead_info_params lead_id email = [(''lead_id'', opt_str lead_id), (''email'', opt_str email)]"

definition get_lead_info_body ::
  "'p crm_tool \<Rightarrow> string option \<Rightarrow> string option \<Rightarrow> 'p crm_state \<Rightarrow>
   (exn + pydict) \<times> 'p crm_state" where
  "get_lead_info_body tool lead_id email st =
     (if \<not> truthy lead_id \<and> \<not> truthy email
      then (Inl (ValueError ''Either lead_id or email must be provided''), st)
      else cached_read tool ''get_lead_info'' ''Failed to get lead info: ''
             (lead_info_params lead_id email) st)"

text \<open>\<open>get_lead_info\<close> as callers see it, under \<open>@retry_on_error(max_retries=3, delay=1.0, backoff=2.0)\<close>.\<close>

definition get_lead_info ::
  "'p crm_tool \<Rightarrow> string option \<Rightarrow> string option \<Rightarrow> 'p crm_state retry_env \<Rightarrow>
   (exn + pydict) \<times> 'p crm_state retry_env" where
  "get_lead_info tool lead_id email = retry_default (get_lead_info_body tool lead_id email)"

text \<open>The undecorated body of \<open>get_sales_history\<close> and the decorated method.\<close>

definition get_sales_history_body ::
  "'p crm_tool \<Rightarrow> string option \<Rightarrow> int \<Rightarrow> 'p crm_state \<Rightarrow> (exn + pydict) \<times> 'p crm_state" where
  "get_sales_history_body tool lead_id limit st =
     cached_read tool ''get_sales_history'' ''Failed to get sales history: ''
       [(''lead_id'', opt_str lead_id), (''limit'', PInt limit)] st"

definition get_sales_history ::
  "'p crm_tool \<Rightarrow> string option \<Rightarrow> int \<Rightarrow> 'p crm_state retry_env \<Rightarrow>
   (exn + pydict) \<times> 'p crm_state retry_env" where
  "get_sales_history tool lead_id limit = retry_default (get_sales_history_body tool lead_id limit)"

text \<open>The cached read methods of \<open>CatalogTool\<close>: undecorated bodies and decorated methods.\<close>

definition get_products_body ::
  "'p crm_tool \<Rightarrow> string option \<Rightarrow> string option \<Rightarrow> int \<Rightarrow> 'p crm_state \<Rightarrow>
   (exn + pydict) \<times> 'p crm_state" where
  "get_products_body tool category target_audience limit st =
     cached_read tool ''get_products'' ''Failed to get products: ''
       [(''category'', opt_str category), (''target_audience'', opt_str target_audience),
        (''limit'', PInt limit)] st"

definition get_product_details_body ::
  "'p crm_tool \<Rightarrow> string \<Rightarrow> 'p crm_state \<Rightarrow> (exn + pydict) \<times> 'p crm_state" where
  "get_product_details_body tool product_id st =
     (if product_id = [] then (Inl (ValueError ''product_id must be provided''), st)
      else cached_read tool ''get_product_details'' ''Failed to get product details: ''
             [(''product_id'', PStr product_id)] st)"

definition search_products_body ::
  "'p crm_tool \<Rightarrow> string \<Rightarrow> int \<Rightarrow> 'p crm_state \<Rightarrow> (exn + pydict) \<times> 'p crm_state" where
  "search_products_body tool query limit st =
     (if query = [] then (Inl (ValueError ''query must be provided''), st)
      else cached_read tool ''search_products'' ''Failed to search products: ''
             [(''query'', PStr query), (''limit'', PInt limit)] st)"

definition get_products ::
  "'p crm_tool \<Rightarrow> string option \<Rightarrow> string option \<Rightarrow> int \<Rightarrow> 'p crm_state retry_env \<Rightarrow>
   (exn + pydict) \<times> 'p crm_state retry_env" where
  "get_products tool category target_audience limit =
     retry_default (get_products_body tool category target_audience limit)"

definition get_product_details ::
  "'p crm_tool \<Rightarrow> string \<Rightarrow> 'p crm_state retry_env \<Rightarrow> (exn + pydict) \<times> 'p crm_state retry_env" where
  "get_product_details tool product_id = retry_default (get_product_details_body tool product_id)"

definition search_products ::
  "'p crm_tool \<Rightarrow> string \<Rightarrow> int \<Rightarrow> 'p crm_state retry_env \<Rightarrow>
   (exn + pydict) \<times> 'p crm_state retry_env" where
  "search_products tool query limit = retry_default (search_products_body tool query limit)"

text \<open>The cached read methods of \<open>AnalyticsTool\<close>.\<close>

definition get_conversion_metrics_body ::
  "'p crm_tool \<Rightarrow> string option \<Rightarrow> string option \<Rightarrow> string option \<Rightarrow> 'p crm_state \<Rightarrow>
   (exn + pydict) \<times> 'p crm_state" where
  "get_conversion_metrics_body tool stage start_date end_date st =
     cached_read tool ''get_conversion_metrics'' ''Failed to get conversion metrics: ''
       [(''stage'', opt_str stage), (''start_date'', opt_str start_date),
        (''end_date'', opt_str end_date)] st"

definition get_funnel_analytics_body ::
  "'p crm_tool \<Rightarrow> string option \<Rightarrow> string option \<Rightarrow> 'p crm_state \<Rightarrow>
   (exn + pydict) \<times> 'p crm_state" where
  "get_funnel_analytics_body tool start_date end_date st =
     cached_read tool ''get_funnel_analytics'' ''Failed to get funnel analytics: ''
       [(''start_date'', opt_str start_date), (''end_date'', opt_str end_date)] st"

definition get_conversion_metrics_tool ::
  "'p crm_tool \<Rightarrow> string option \<Rightarrow> string option \<Rightarrow> string option \<Rightarrow> 'p crm_state retry_env \<Rightarrow>
   (exn + pydict) \<times> 'p crm_state retry_env" where
  "get_conversion_metrics_tool tool stage start_date end_date =
     retry_default (get_conversion_metrics_body tool stage start_date end_date)"

definition get_funnel_analytics ::
  "'p crm_tool \<Rightarrow> string option \<Rightarrow> string option \<Rightarrow> 'p crm_state retry_env \<Rightarrow>
   (exn + pydict) \<times> 'p crm_state retry_env" where
  "get_funnel_analytics tool start_date end_date =
     retry_default (get_funnel_analytics_body tool start_date end_date)"

text \<open>
  The seven cached read methods as one family: a call is a method with its arguments,
  and \<open>read\<close> makes that call on a tool of the method's class.
\<close>

datatype read_call =
    GetLeadInfo "string option" "string option"
  | GetSalesHistory "string option" int
  | GetProducts "string option" "string option" int
  | GetProductDetails string
  | SearchProducts string int
  | GetConversionMetrics "string option" "string option" "string option"
  | GetFunnelAnalytics "string option" "string option"

fun read_body :: "'p crm_tool \<Rightarrow> read_call \<Rightarrow> 'p crm_state \<Rightarrow> (exn + pydict) \<times> 'p crm_state" where
  "read_body tool (GetLeadInfo lead_id email) = get_lead_info_body tool lead_id email"
| "read_body tool (GetSalesHistory lead_id limit) = get_sales_history_body tool lead_id limit"
| "read_body tool (GetProducts category target_audience limit) =
     get_products_body tool category target_audience limit"
| "read_body tool (GetProductDetails product_id) = get_product_details_body tool product_id"
| "read_body tool (SearchProducts query limit) = search_products_body tool query limit"
| "read_body tool (GetConversionMetrics stage start_date end_date) =
     get_conversion_metrics_body tool stage start_date end_date"
| "read_body tool (GetFunnelAnalytics start_date end_date) =
     get_funnel_analytics_body tool start_date end_date"

fun read :: "'p crm_tool \<Rightarrow> read_call \<Rightarrow> 'p crm_state retry_env \<Rightarrow>
             (exn + pydict) \<times> 'p crm_state retry_env" where
  "read tool (GetLeadInfo lead_id email) = get_lead_info tool lead_id email"
| "read tool (GetSalesHistory lead_id limit) = get_sales_history tool lead_id limit"
| "read tool (GetProducts category target_audience limit) =
     get_products tool category target_audience limit"
| "read tool (GetProductDetails product_id) = get_product_details tool product_id"
| "read tool (SearchProducts query limit) = search_products tool query limit"
| "read tool (GetConversionMetrics stage start_date end_date) =
     get_conversion_metrics_tool tool stage start_date end_date"
| "read tool (GetFunnelAnalytics start_date end_date) =
     get_funnel_analytics tool start_date end_date"

text \<open>
  Of a call: whether its arguments pass the method's own check, the tool name it sends
  and the parameters it builds.
\<close>

fun accepted :: "read_call \<Rightarrow> bool" where
  "accepted (GetLeadInfo lead_id email) = (truthy lead_id \<or> truthy email)"
| "accepted (GetProductDetails product_id) = (product_id \<noteq> [])"
| "accepted (SearchProducts query limit) = (query \<noteq> [])"
| "accepted _ = True"

fun sent_name :: "read_call \<Rightarrow> string" where
  "sent_name (GetLeadInfo _ _) = ''get_lead_info''"
| "sent_name (GetSalesHistory _ _) = ''get_sales_history''"
| "sent_name (GetProducts _ _ _) = ''get_products''"
| "sent_name (GetProductDetails _) = ''get_product_details''"
| "sent_name (SearchProducts _ _) = ''search_products''"
| "sent_name (GetConversionMetrics _ _ _) = ''get_conversion_metrics''"
| "sent_name (GetFunnelAnalytics _ _) = ''get_funnel_analytics''"

fun sent_params :: "read_call \<Rightarrow> pydict" where
  "sent_params (GetLeadInfo lead_id email) = lead_info_params lead_id email"
| "sent_params (GetSalesHistory lead_id limit) =
     [(''lead_id'', opt_str lead_id), (''limit'', PInt limit)]"
| "sent_params (GetProducts category target_audience limit) =
     [(''category'', opt_str category), (''target_audience'', opt_str target_audience),
      (''limit'', PInt limit)]"
| "sent_params (GetProductDetails product_id) = [(''product_id'', PStr product_id)]"
| "sent_params (SearchProducts query limit) = [(''query'', PStr query), (''limit'', PInt limit)]"
| "sent_params (GetConversionMetrics stage start_date end_date) =
     [(''stage'', opt_str stage), (''start_date'', opt_str start_date),
      (''end_date'', opt_str end_date)]"
| "sent_params (GetFunnelAnalytics start_date end_date) =
     [(''start_date'', opt_str start_date), (''end_date'', opt_str end_date)]"

text \<open>
  A provider for concrete runs: its state counts the calls it has served and every call
  returns that count; and a tool over it with caching on, a TTL of 3600 seconds and a
  clock that advances by 100 seconds per reading. Its readings are small whole numbers,
  whose differences floats give exactly.
\<close>

definition counting_server :: "string \<Rightarrow> pydict \<Rightarrow> int \<Rightarrow> (exn + pydict) \<times> int" where
  "counting_server tool_name params n = (Inr [(''success'', PBool True), (''serial'', PInt n)], n + 1)"

definition demo_tool :: "int crm_tool" where
  "demo_tool = \<lparr>cache_enabled = True, cache_ttl = 3600, time_time = (\<lambda>n. 100 * real n),
                 float_sub = (\<lambda>a b. a - b), crm_server_call = counting_server\<rparr>"

text \<open>The same tool under a clock that advances by 3600 seconds per reading.\<close>

definition slow_tool :: "int crm_tool" where
  "slow_tool = demo_tool\<lparr>time_time := (\<lambda>n. 3600 * real n)\<rparr>"

definition fresh_state :: "int crm_state retry_env" where
  "fresh_state =
     \<lparr>inner = \<lparr>cache = Map.empty, crm_server = 0, time_reads = 0, server_calls = 0\<rparr>,
      slept = [], calls = 0\<rparr>"

text \<open>The cache key a call builds, and three more calls for concrete runs.\<close>

definition call_key :: "read_call \<Rightarrow> cache_key" where
  "call_key c = get_cache_key (sent_name c) (sent_params c)"

definition history_read :: "(exn + pydict) \<times> int crm_state retry_env" where
  "history_read = read demo_tool (GetSalesHistory (Some ''lead_001'') 10) fresh_state"

definition history_read_again :: "(exn + pydict) \<times> int crm_state retry_env" where
  "history_read_again = read demo_tool (GetSalesHistory (Some ''lead_001'') 10) (snd history_read)"

definition history_read_other :: "(exn + pydict) \<times> int crm_state retry_env" where
  "history_read_other = read demo_tool (GetSalesHistory (Some ''lead_002'') 10) (snd history_read)"

definition history_read_slow :: "(exn + pydict) \<times> int crm_state retry_env" where
  "history_read_slow = read slow_tool (GetSalesHistory (Some ''lead_001'') 10) fresh_state"

definition history_read_slow_again :: "(exn + pydict) \<times> int crm_state retry_env" where
  "history_read_slow_again =
     read slow_tool (GetSalesHistory (Some ''lead_001'') 10) (snd history_read_slow)"

section \<open>\<open>src/mcp_servers/base_mcp.py\<close>: \<open>BaseMCPServer\<close>\<close>

text \<open>
  The tools similar to a name (either contains the other, compared in lower case), and
  the tail of the not-found message that \<open>_validate_tool_exists\<close> and
  \<open>MCPTools.call_tool\<close> build from them.
\<close>

definition similar_tools :: "string \<Rightarrow> string list \<Rightarrow> string list" where
  "similar_tools tool_name tools =
     filter (\<lambda>tool. str_in (lower tool_name) (lower tool) \<or> str_in (lower tool) (lower tool_name))
       tools"

definition validate_tool_exists :: "string \<Rightarrow> string list \<Rightarrow> string \<Rightarrow> exn + unit" where
  "validate_tool_exists server_name tools tool_name =
     (if tool_name \<notin> set tools then
        (let similar = similar_tools tool_name tools;
             error_msg = ''Tool '' @ [CHR 0x27] @ tool_name @ [CHR 0x27] @ '' n'' @ [CHR 0xE3] @ ''o encontrada em '' @ server_name @ ''.''
         in Inl (ValueError
               (if similar \<noteq> [] then error_msg @ '' Tools similares: '' @ join '', '' (take 5 similar)
                else if tools \<noteq> [] then error_msg @ '' Tools dispon'' @ [CHR 0xED] @ ''veis: '' @ join '', '' (take 10 tools)
                else error_msg @ '' Nenhuma tool dispon'' @ [CHR 0xED] @ ''vel.'')))
      else Inr ())"

text \<open>\<open>_validate_required_params\<close>: a parameter is missing when its key is absent or holds \<open>None\<close>.\<close>

definition missing_params :: "pydict \<Rightarrow> string list \<Rightarrow> string list" where
  "missing_params params required =
     filter (\<lambda>param. param \<notin> set (dict_keys params) \<or> dict_get params param = Some PNone) required"

definition validate_required_params :: "pydict \<Rightarrow> string list \<Rightarrow> string \<Rightarrow> exn + unit" where
  "validate_required_params params required tool_name =
     (let missing = missing_params params required
      in if missing \<noteq> [] then
           Inl (ValueError
             (''Par'' @ [CHR 0xE2] @ ''metros obrigat'' @ [CHR 0xF3] @ ''rios faltando para tool '' @ [CHR 0x27] @ tool_name @ [CHR 0x27] @ '': '' @ join '', '' missing
              @ ''. Par'' @ [CHR 0xE2] @ ''metros fornecidos: '' @ (if params \<noteq> [] then join '', '' (dict_keys params) else ''nenhum'')
              @ ''. Par'' @ [CHR 0xE2] @ ''metros esperados: '' @ join '', '' required))
         else Inr ())"

section \<open>\<open>src/mcp_servers/mock_crm_server.py\<close>: \<open>MockCRMServer\<close>\<close>

datatype LeadStatus =
  NEW | QUALIFIED | CONTACTED | PRESENTATION_STATUS | NEGOTIATION_STATUS | CLOSED_WON
  | CLOSED_LOST | NURTURING

fun status_value :: "LeadStatus \<Rightarrow> string" where
  "status_value NEW = ''new''"
| "status_value QUALIFIED = ''qualified''"
| "status_value CONTACTED = ''contacted''"
| "status_value PRESENTATION_STATUS = ''presentation''"
| "status_value NEGOTIATION_STATUS = ''negotiation''"
| "status_value CLOSED_WON = ''closed_won''"
| "status_value CLOSED_LOST = ''closed_lost''"
| "status_value NURTURING = ''nurturing''"

text \<open>\<open>LeadStatus(status)\<close>: the member with that value, or a \<open>ValueError\<close>.\<close>

definition LeadStatus_of :: "string \<Rightarrow> exn + LeadStatus" where
  "LeadStatus_of s =
     (case find (\<lambda>m. status_value m = s)
             [NEW, QUALIFIED, CONTACTED, PRESENTATION_STATUS, NEGOTIATION_STATUS, CLOSED_WON,
              CLOSED_LOST, NURTURING] of
        Some m \<Rightarrow> Inr m
      | None \<Rightarrow> Inl (ValueError ([CHR 0x27] @ s @ [CHR 0x27] @ '' is not a valid LeadStatus'')))"

text \<open>
  A \<open>Lead\<close> (\<open>src/models/lead.py\<close>); \<open>priority\<close> is kept by its value and \<open>bant_score\<close>
  as the value \<open>model_dump\<close> gives for it.
\<close>

record lead =
  lead_ident :: string
  lead_email :: "string option"
  lead_name :: "string option"
  lead_company :: "string option"
  lead_phone :: "string option"
  lead_status :: LeadStatus
  lead_priority :: string
  lead_bant_score :: pyval
  lead_source :: "string option"
  lead_notes :: "string option"
  lead_created_at :: real
  lead_updated_at :: real
  lead_assigned_agent :: "string option"

definition model_dump :: "lead \<Rightarrow> pyval" where
  "model_dump l = PDict
     [(''id'', PStr (lead_ident l)), (''email'', opt_str (lead_email l)),
      (''name'', opt_str (lead_name l)), (''company'', opt_str (lead_company l)),
      (''phone'', opt_str (lead_phone l)), (''status'', PStr (status_value (lead_status l))),
      (''priority'', PStr (lead_priority l)), (''bant_score'', lead_bant_score l),
      (''source'', opt_str (lead_source l)), (''notes'', opt_str (lead_notes l)),
      (''created_at'', PTime (lead_created_at l)), (''updated_at'', PTime (lead_updated_at l)),
      (''assigned_agent'', opt_str (lead_assigned_agent l))]"

text \<open>\<open>self._leads\<close>, a dictionary from lead id to lead in insertion order.\<close>

type_synonym leads = "(string \<times> lead) list"

definition get_lead_info_server :: "leads \<Rightarrow> string option \<Rightarrow> string option \<Rightarrow> pydict" where
  "get_lead_info_server leads lead_id email =
     (if \<not> truthy lead_id \<and> \<not> truthy email then
        [(''success'', PBool False), (''error'', PStr ([CHR 0xC9] @ '' necess'' @ [CHR 0xE1] @ ''rio fornecer 'lead_id' ou 'email' para buscar informa'' @ [CHR 0xE7] @ [CHR 0xF5] @ ''es do lead'')), (''hint'', PStr (''Forne'' @ [CHR 0xE7] @ ''a pelo menos um dos seguintes par'' @ [CHR 0xE2] @ ''metros: lead_id, email''))]
      else
        (let lead =
               (if truthy lead_id then dict_get leads (the lead_id)
                else map_option snd (find (\<lambda>(k, l). lead_email l = email) leads))
         in case lead of
              None \<Rightarrow>
                [(''error'', PStr ''Lead not found''), (''lead_id'', opt_str lead_id),
                 (''email'', opt_str email)]
            | Some l \<Rightarrow> [(''success'', PBool True), (''lead'', model_dump l)]))"

text \<open>
  \<open>_update_lead_status\<close> at the clock reading \<open>now\<close> (\<open>datetime.utcnow()\<close>); it returns
  the result and the leads after the update.
\<close>

definition new_notes :: "string option \<Rightarrow> string \<Rightarrow> string" where
  "new_notes old notes =
     (if truthy old then (case old of Some n \<Rightarrow> n | None \<Rightarrow> '''') @ [CHR 0x0A] @ notes else notes)"

definition update_lead_status_server ::
  "real \<Rightarrow> leads \<Rightarrow> string \<Rightarrow> string \<Rightarrow> string option \<Rightarrow> pydict \<times> leads" where
  "update_lead_status_server now leads lead_id status notes =
     (if lead_id = [] then
        ([(''success'', PBool False), (''error'', PStr (''Par'' @ [CHR 0xE2] @ ''metro obrigat'' @ [CHR 0xF3] @ ''rio 'lead_id' n'' @ [CHR 0xE3] @ ''o fornecido'')), (''hint'', PStr (''Forne'' @ [CHR 0xE7] @ ''a o ID do lead que deseja atualizar''))], leads)
      else if status = [] then
        ([(''success'', PBool False), (''error'', PStr (''Par'' @ [CHR 0xE2] @ ''metro obrigat'' @ [CHR 0xF3] @ ''rio 'status' n'' @ [CHR 0xE3] @ ''o fornecido'')), (''hint'', PStr (''Forne'' @ [CHR 0xE7] @ ''a o novo status do lead''))], leads)
      else
        (case dict_get leads lead_id of
           None \<Rightarrow> ([(''error'', PStr ''Lead not found''), (''lead_id'', PStr lead_id)], leads)
         | Some l \<Rightarrow>
             (case LeadStatus_of status of
                Inl e \<Rightarrow>
                  ([(''error'', PStr (''Invalid status: '' @ status)),
                    (''details'', PStr (str_of_exn e))], leads)
              | Inr st \<Rightarrow>
                  (let l1 = l\<lparr>lead_status := st\<rparr>;
                       l2 = (if truthy notes
                             then l1\<lparr>lead_notes := Some (new_notes (lead_notes l1) (the notes))\<rparr>
                             else l1);
                       l3 = l2\<lparr>lead_updated_at := now\<rparr>
                   in ([(''success'', PBool True), (''lead_id'', PStr lead_id),
                        (''new_status'', PStr status), (''updated_at'', PTime now)],
                       dict_set lead_id l3 leads)))))"

text \<open>The three sample leads of \<open>_initialize_mock_data\<close>, created at the reading \<open>t\<close>.\<close>

definition sample_lead ::
  "real \<Rightarrow> string \<Rightarrow> string \<Rightarrow> string \<Rightarrow> string \<Rightarrow> string \<Rightarrow> LeadStatus \<Rightarrow> string \<Rightarrow> lead" where
  "sample_lead t i e n c p s src =
     \<lparr>lead_ident = i, lead_email = Some e, lead_name = Some n, lead_company = Some c,
      lead_phone = Some p, lead_status = s, lead_priority = ''cold'', lead_bant_score = PNone,
      lead_source = Some src, lead_notes = None, lead_created_at = t, lead_updated_at = t,
      lead_assigned_agent = None\<rparr>"

definition initial_leads :: "real \<Rightarrow> leads" where
  "initial_leads t =
     [(''lead_001'', sample_lead t ''lead_001'' ''john.doe@example.com'' ''John Doe''
                      ''Acme Corp'' ''+1-555-0101'' NEW ''website''),
      (''lead_002'', sample_lead t ''lead_002'' ''jane.smith@example.com'' ''Jane Smith''
                      ''TechStart Inc'' ''+1-555-0102'' QUALIFIED ''referral''),
      (''lead_003'', sample_lead t ''lead_003'' ''bob.wilson@example.com'' ''Bob Wilson''
                      ''Global Solutions'' ''+1-555-0103'' PRESENTATION_STATUS ''event'')]"

text \<open>
  Reading a result the way the dispatcher logs it, \<open>result.get("success", False)\<close>, and
  the presence of a key.
\<close>

definition has_key :: "pydict \<Rightarrow> string \<Rightarrow> bool" where
  "has_key d k = (k \<in> set (dict_keys d))"

definition success_or_false :: "pydict \<Rightarrow> pyval" where
  "success_or_false d = (case dict_get d ''success'' of None \<Rightarrow> PBool False | Some v \<Rightarrow> v)"

section \<open>\<open>src/utils/mcp_server_factory.py\<close>: \<open>MCPServerFactory\<close>\<close>

text \<open>
  A server object is identified by the serial number of its construction, so that two
  objects are the same object exactly when they are equal; it carries the
  \<open>server_name\<close> its class passes to \<open>BaseMCPServer\<close> and its \<open>simulate_latency\<close> flag.
\<close>

record server_instance =
  obj_id :: nat
  server_name :: string
  simulate_latency :: bool

text \<open>
  The class state: \<open>_settings\<close> (the settings object is not inspected, only its
  presence), \<open>_instances\<close>, and for the proofs the number of objects constructed so far
  and the objects in the order of their construction.
\<close>

record factory =
  settings :: "unit option"
  instances :: "string \<rightharpoonup> server_instance"
  next_obj :: nat
  constructed :: "server_instance list"

text \<open>The keys of \<open>server_map\<close>, in its order.\<close>

definition server_names :: "string list" where
  "server_names =
     [''mock_crm'', ''mock_catalog'', ''mock_analytics'', ''mock_ifood'', ''mock_restaurant'',
      ''mock_recommendation'', ''mock_contract'', ''mock_pricing'', ''mock_qualification'']"

definition str_of_bool :: "bool \<Rightarrow> string" where
  "str_of_bool b = (if b then ''True'' else ''False'')"

definition create_server :: "string \<Rightarrow> bool \<Rightarrow> factory \<Rightarrow> (exn + server_instance) \<times> factory" where
  "create_server name latency f =
     (if name \<notin> set server_names then
        (Inl (ValueError (''Unknown server name: '' @ name @ ''. Available: ''
                           @ join '', '' server_names)), f)
      else
        (let server = \<lparr>obj_id = next_obj f, server_name = name, simulate_latency = latency\<rparr>
         in (Inr server, f\<lparr>next_obj := next_obj f + 1, constructed := constructed f @ [server]\<rparr>)))"

definition instance_key :: "string \<Rightarrow> bool \<Rightarrow> string" where
  "instance_key name latency = name @ ''_'' @ str_of_bool latency"

definition get_server :: "string \<Rightarrow> bool \<Rightarrow> factory \<Rightarrow> (exn + server_instance) \<times> factory" where
  "get_server name latency f =
     (case settings f of
        None \<Rightarrow>
          (Inl (RuntimeError ''MCPServerFactory not initialized. Call initialize() first.''), f)
      | Some _ \<Rightarrow>
          (let cache_key = instance_key name latency
           in case instances f cache_key of
                Some server \<Rightarrow> (Inr server, f)
              | None \<Rightarrow>
                  (case create_server name latency f of
                     (Inl e, f') \<Rightarrow> (Inl e, f')
                   | (Inr server, f') \<Rightarrow>
                       (Inr server, f'\<lparr>instances := (instances f')(cache_key \<mapsto> server)\<rparr>))))"

definition initialize :: "factory \<Rightarrow> factory" where
  "initialize f = f\<lparr>settings := Some (), instances := Map.empty\<rparr>"

definition clear_cache :: "factory \<Rightarrow> factory" where
  "clear_cache f = f\<lparr>instances := Map.empty\<rparr>"

text \<open>\<open>get_all_servers\<close>: the loop over the nine names stops at the first exception.\<close>

fun get_servers ::
  "string list \<Rightarrow> bool \<Rightarrow> (string \<times> server_instance) list \<Rightarrow> factory \<Rightarrow>
   (exn + (string \<times> server_instance) list) \<times> factory" where
  "get_servers [] latency servers f = (Inr servers, f)"
| "get_servers (name # names) latency servers f =
     (case get_server name latency f of
        (Inl e, f') \<Rightarrow> (Inl e, f')
      | (Inr server, f') \<Rightarrow> get_servers names latency (dict_set name server servers) f')"

definition get_all_servers ::
  "bool \<Rightarrow> factory \<Rightarrow> (exn + (string \<times> server_instance) list) \<times> factory" where
  "get_all_servers latency f = get_servers server_names latency [] f"

text \<open>A run of \<open>get_server\<close> requests, one after the other, whatever each returns.\<close>

fun gets :: "(string \<times> bool) list \<Rightarrow> factory \<Rightarrow> factory" where
  "gets [] f = f"
| "gets ((name, latency) # reqs) f = gets reqs (snd (get_server name latency f))"

definition new_factory :: factory where
  "new_factory = \<lparr>settings = None, instances = Map.empty, next_obj = 0, constructed = []\<rparr>"

text \<open>
  What holds of the class state however it was reached: every object built so far has a
  known name and a serial number below the next one, and every cached object sits under
  the key of its own name and flag and is one of the objects built.
\<close>

definition key_of :: "server_instance \<Rightarrow> string" where
  "key_of server = instance_key (server_name server) (simulate_latency server)"

definition wf_factory :: "factory \<Rightarrow> bool" where
  "wf_factory f \<longleftrightarrow>
     (\<forall>server \<in> set (constructed f).
        obj_id server < next_obj f \<and> server_name server \<in> set server_names)
     \<and> (\<forall>k server. instances f k = Some server \<longrightarrow>
           k = key_of server \<and> server \<in> set (constructed f))"

text \<open>
  States for concrete runs: the factory right after \<open>initialize\<close>, after a first request
  for \<open>mock_crm\<close> without latency, and two further requests.
\<close>

definition factory0 :: factory where
  "factory0 = initialize new_factory"

definition factory1 :: factory where
  "factory1 = snd (get_server ''mock_crm'' False factory0)"

definition further_requests :: "(string \<times> bool) list" where
  "further_requests = [(''mock_crm'', True), (''mock_catalog'', False)]"

section \<open>\<open>src/agents/mcp_tools.py\<close>: \<open>MCPTools\<close>\<close>

text \<open>An \<open>MCPTool\<close> configuration (\<open>src/models/agent_config.py\<close>).\<close>

record MCPTool =
  mt_name :: string
  mt_url :: string
  mt_description :: string
  mt_parameters :: "pydict option"

text \<open>
  What the HTTP fallback can end in: one of the exceptions the method distinguishes, in
  the order of its \<open>except\<close> clauses, or the decoded JSON body.
\<close>

datatype http_outcome =
    ConnectError string
  | TimeoutException string
  | HTTPStatusError nat string
  | HTTPError string
  | UnexpectedError string
  | JsonBody pydict

text \<open>
  The manager: \<open>self.tools\<close> (a dictionary by tool name), \<open>settings.mcp_timeout\<close> when the
  settings have one, the names under which server objects are held in \<open>self.servers\<close>,
  and its surroundings: a held server's \<open>call\<close>, the HTTP POST to \<open>/mcp/call\<close>, and
  Python's rendering of a float. The state is the outside world together with the number
  of direct calls and of HTTP requests made.
\<close>

record 'w mcp_tools =
  tools :: "(string \<times> MCPTool) list"
  mcp_timeout :: "real option"
  servers :: "string list"
  server_call :: "string \<Rightarrow> string \<Rightarrow> pydict \<Rightarrow> 'w \<Rightarrow> (exn + pydict) \<times> 'w"
  http_post :: "string \<Rightarrow> string \<Rightarrow> pydict \<Rightarrow> real \<Rightarrow> 'w \<Rightarrow> http_outcome \<times> 'w"
  str_float :: "real \<Rightarrow> string"

record 'w dispatch_state =
  world :: 'w
  direct_calls :: nat
  http_calls :: nat

text \<open>\<open>{tool.name: tool for tool in tools}\<close>.\<close>

definition tools_by_name :: "MCPTool list \<Rightarrow> (string \<times> MCPTool) list" where
  "tools_by_name ts = foldl (\<lambda>d tool. dict_set (mt_name tool) tool d) [] ts"

text \<open>\<open>{**defaults, **params}\<close>.\<close>

definition dict_merge :: "pydict \<Rightarrow> pydict \<Rightarrow> pydict" where
  "dict_merge defaults params = foldl (\<lambda>d (k, v). dict_set k v d) defaults params"

definition get_server_name_from_url :: "string \<Rightarrow> string" where
  "get_server_name_from_url url =
     (if str_in ''8001'' url then ''mock_crm''
      else if str_in ''8002'' url then ''mock_catalog''
      else if str_in ''8003'' url then ''mock_analytics''
      else if str_in ''8005'' url then ''mock_ifood''
      else if str_in ''8006'' url then ''mock_restaurant''
      else if str_in ''8007'' url then ''mock_recommendation''
      else if str_in ''8008'' url then ''mock_contract''
      else if str_in ''8009'' url then ''mock_pricing''
      else if str_in ''8010'' url then ''mock_qualification''
      else ''unknown'')"

text \<open>Decimal rendering of a status code.\<close>

fun str_nat :: "nat \<Rightarrow> string" where
  "str_nat n = (if n < 10 then [char_of (48 + n)]
                else str_nat (n div 10) @ [char_of (48 + n mod 10)])"

text \<open>The message of the \<open>ValueError\<close> raised for a name that is not a key of \<open>self.tools\<close>.\<close>

definition not_found_message :: "string \<Rightarrow> string list \<Rightarrow> string" where
  "not_found_message tool_name available_tools =
     (let similar = similar_tools tool_name available_tools;
          error_msg = ''Tool '' @ [CHR 0x27] @ tool_name @ [CHR 0x27] @ '' n'' @ [CHR 0xE3] @ ''o encontrada.''
      in if similar \<noteq> [] then error_msg @ '' Tools similares dispon'' @ [CHR 0xED] @ ''veis: '' @ join '', '' (take 5 similar)
         else if available_tools \<noteq> [] then error_msg @ '' Tools dispon'' @ [CHR 0xED] @ ''veis: '' @ join '', '' (take 10 available_tools)
         else error_msg @ '' Nenhuma tool dispon'' @ [CHR 0xED] @ ''vel.'')"

definition http_fallback ::
  "'w mcp_tools \<Rightarrow> MCPTool \<Rightarrow> string \<Rightarrow> pydict \<Rightarrow> 'w dispatch_state \<Rightarrow>
   (exn + pydict) \<times> 'w dispatch_state" where
  "http_fallback t tool tool_name params st =
     (let timeout_value = (case mcp_timeout t of Some v \<Rightarrow> v | None \<Rightarrow> 30);
          (outcome, w') = http_post t (mt_url tool @ ''/mcp/call'') tool_name params
                            timeout_value (world st);
          st' = st\<lparr>world := w', http_calls := http_calls st + 1\<rparr>
      in case outcome of
           JsonBody result \<Rightarrow> (Inr result, st')
         | ConnectError e \<Rightarrow>
             (Inl (RuntimeError (''Falha ao conectar com servidor MCP para tool '' @ [CHR 0x27] @ tool_name @ [CHR 0x27] @ '': '' @ e @ [CHR 0x0A] @ ''URL: '' @ mt_url tool
                                 @ [CHR 0x0A] @ ''Verifique se o servidor MCP est'' @ [CHR 0xE1] @ '' rodando.'')), st')
         | TimeoutException e \<Rightarrow>
             (Inl (RuntimeError (''Timeout ao chamar tool '' @ [CHR 0x27] @ tool_name @ [CHR 0x27] @ '' (timeout: '' @ str_float t timeout_value @ ''s). O servidor MCP pode estar sobrecarregado ou inacess'' @ [CHR 0xED] @ ''vel.'')), st')
         | HTTPStatusError code e \<Rightarrow>
             (Inl (RuntimeError (''Erro HTTP '' @ str_nat code @ '' ao chamar tool '' @ [CHR 0x27] @ tool_name @ [CHR 0x27] @ '': '' @ e)), st')
         | HTTPError e \<Rightarrow>
             (Inl (RuntimeError (''Falha ao chamar tool '' @ tool_name @ '': '' @ e)), st')
         | UnexpectedError e \<Rightarrow>
             (Inl (RuntimeError (''Erro inesperado ao chamar tool '' @ tool_name @ '': '' @ e)),
              st'))"

definition call_tool ::
  "'w mcp_tools \<Rightarrow> string \<Rightarrow> pydict option \<Rightarrow> 'w dispatch_state \<Rightarrow>
   (exn + pydict) \<times> 'w dispatch_state" where
  "call_tool t tool_name parameters st =
     (case dict_get (tools t) tool_name of
        None \<Rightarrow> (Inl (ValueError (not_found_message tool_name (dict_keys (tools t)))), st)
      | Some tool \<Rightarrow>
          (let params0 = (case parameters of None \<Rightarrow> [] | Some p \<Rightarrow> p);
               params = (case mt_parameters tool of
                           None \<Rightarrow> params0
                         | Some defaults \<Rightarrow>
                             if defaults \<noteq> [] then dict_merge defaults params0 else params0);
               server_name = get_server_name_from_url (mt_url tool)
           in if server_name \<in> set (servers t) then
                (let (r, w') = server_call t server_name tool_name params (world st);
                     st' = st\<lparr>world := w', direct_calls := direct_calls st + 1\<rparr>
                 in case r of
                      Inr result \<Rightarrow> (Inr result, st')
                    | Inl e \<Rightarrow> http_fallback t tool tool_name params st')
              else http_fallback t tool tool_name params st))"

text \<open>
  A manager for concrete runs: the four CRM tools registered at port 8001, no server
  held, and an HTTP layer that always refuses the connection.
\<close>

definition crm_tool_config :: "string \<Rightarrow> MCPTool" where
  "crm_tool_config n =
     \<lparr>mt_name = n, mt_url = ''http://localhost:8001'', mt_description = n, mt_parameters = None\<rparr>"

definition demo_manager :: "unit mcp_tools" where
  "demo_manager =
     \<lparr>tools = tools_by_name (map crm_tool_config
                [''get_lead_info'', ''update_lead_status'', ''get_sales_history'',
                 ''concluir_compra'']),
      mcp_timeout = None, servers = [],
      server_call = (\<lambda>s n p w. (Inl (OtherError ''no server''), w)),
      http_post = (\<lambda>u n p tm w. (ConnectError ''refused'', w)),
      str_float = (\<lambda>r. ''30.0'')\<rparr>"

definition idle :: "unit dispatch_state" where
  "idle = \<lparr>world = (), direct_calls = 0, http_calls = 0\<rparr>"

section \<open>\<open>src/models/conversation.py\<close>\<close>

datatype MessageRole = USER | AGENT | SYSTEM

datatype ConversationStage =
  FAQ | LEAD_GENERATION | QUALIFICATION | PRESENTATION | NEGOTIATION | CLOSING | COMPLETED

fun stage_value :: "ConversationStage \<Rightarrow> string" where
  "stage_value FAQ = ''faq''"
| "stage_value LEAD_GENERATION = ''lead_generation''"
| "stage_value QUALIFICATION = ''qualification''"
| "stage_value PRESENTATION = ''presentation''"
| "stage_value NEGOTIATION = ''negotiation''"
| "stage_value CLOSING = ''closing''"
| "stage_value COMPLETED = ''completed''"

text \<open>
  What the attribute \<open>current_stage\<close> holds. The model's configuration has
  \<open>use_enum_values\<close>, so the constructor stores the plain string value of the stage;
  a later assignment stores the enum member it is given. A member and a plain string
  compare as strings; only a member has \<open>.value\<close>.
\<close>

datatype stage_field = PlainValue string | Member ConversationStage

fun field_value :: "stage_field \<Rightarrow> string" where
  "field_value (PlainValue s) = s"
| "field_value (Member m) = stage_value m"

fun dot_value :: "stage_field \<Rightarrow> exn + string" where
  "dot_value (PlainValue s) =
     Inl (AttributeError ([CHR 0x27] @ ''str' object has no attribute 'value'' @ [CHR 0x27]))"
| "dot_value (Member m) = Inr (stage_value m)"

record message =
  role :: MessageRole
  content :: string
  timestamp :: real
  agent_id :: "string option"
  message_metadata :: pydict

record conversation =
  conv_id :: string
  conv_lead_id :: "string option"
  messages :: "message list"
  current_stage :: stage_field
  active_agent :: "string option"
  conv_context :: pydict
  metadata :: pydict
  created_at :: real
  updated_at :: real

text \<open>
  The clock behind \<open>datetime.utcnow()\<close> and \<open>time.time()\<close> is a sequence of readings;
  a computation that reads it takes the number of readings taken so far and returns it
  increased. \<open>add_message\<close> reads it twice: for the message's default \<open>timestamp\<close> and for
  \<open>updated_at\<close>.
\<close>

definition add_message ::
  "(nat \<Rightarrow> real) \<Rightarrow> MessageRole \<Rightarrow> string \<Rightarrow> string option \<Rightarrow> pydict option \<Rightarrow>
   conversation \<times> nat \<Rightarrow> conversation \<times> nat" where
  "add_message clock r text aid md = (\<lambda>(c, n).
     (let msg = \<lparr>role = r, content = text, timestamp = clock n, agent_id = aid,
                 message_metadata = (case md of None \<Rightarrow> [] | Some d \<Rightarrow> d)\<rparr>
      in (c\<lparr>messages := messages c @ [msg], updated_at := clock (n + 1)\<rparr>, n + 2)))"

text \<open>The plain attribute assignments the orchestrator makes on a conversation.\<close>

definition set_current_stage :: "ConversationStage \<Rightarrow> conversation \<Rightarrow> conversation" where
  "set_current_stage st c = c\<lparr>current_stage := Member st\<rparr>"

definition set_active_agent :: "string \<Rightarrow> conversation \<Rightarrow> conversation" where
  "set_active_agent a c = c\<lparr>active_agent := Some a\<rparr>"

definition set_metadata :: "string \<Rightarrow> pyval \<Rightarrow> conversation \<Rightarrow> conversation" where
  "set_metadata k v c = c\<lparr>metadata := dict_set k v (metadata c)\<rparr>"

section \<open>\<open>src/orchestrator/swarm_orchestrator.py\<close>: \<open>SwarmOrchestrator\<close>\<close>

text \<open>\<open>self.metrics\<close>; a \<open>defaultdict(int)\<close> is a dictionary read with default 0.\<close>

record metrics =
  conversations_total :: int
  conversations_by_stage :: "(string \<times> int) list"
  stage_transitions :: "(string \<times> int) list"
  agents_usage :: "(string \<times> int) list"
  conversion_by_stage :: "(string \<times> int) list"
  time_by_stage :: "(string \<times> real list) list"
  abandonment_points :: "(string \<times> int) list"
  completed_conversations :: int
  closed_sales :: int

definition bump :: "string \<Rightarrow> (string \<times> int) list \<Rightarrow> (string \<times> int) list" where
  "bump k d = dict_set k ((case dict_get d k of None \<Rightarrow> 0 | Some v \<Rightarrow> v) + 1) d"

definition append_sample :: "string \<Rightarrow> real \<Rightarrow> (string \<times> real list) list \<Rightarrow> (string \<times> real list) list" where
  "append_sample k x d = dict_set k ((case dict_get d k of None \<Rightarrow> [] | Some xs \<Rightarrow> xs) @ [x]) d"

text \<open>
  What the orchestrator reads of the dictionary returned by \<open>swarm_agent.process\<close>, with
  the defaults of its \<open>get\<close> calls applied: the response text, \<open>telemetry.agents_used\<close>,
  the \<open>node_id\<close> of each entry of \<open>node_history\<close> when it has one, and the rest, which
  is only passed on.
\<close>

record swarm_result =
  response :: string
  agents_used :: "string list"
  node_history :: "string option list"
  passed_on :: pydict

text \<open>
  The surroundings of the orchestrator: the clock, the source of \<open>uuid4\<close> strings, the
  agent pipeline, whose outcome may depend on how many times it was called before, and
  the float arithmetic of Python that the metrics use: the difference of two clock
  readings, the true division of two integers, the product of two floats and
  \<open>sum(times) / len(times)\<close>.
\<close>

record surroundings =
  clock :: "nat \<Rightarrow> real"
  uuid4 :: "nat \<Rightarrow> string"
  swarm_process :: "nat \<Rightarrow> string \<Rightarrow> pydict option \<Rightarrow> exn + swarm_result"
  time_sub :: "real \<Rightarrow> real \<Rightarrow> real"
  true_div :: "int \<Rightarrow> int \<Rightarrow> real"
  float_mul :: "real \<Rightarrow> real \<Rightarrow> real"
  float_mean :: "real list \<Rightarrow> real"

text \<open>
  The orchestrator: its conversations by id, its metrics, and the numbers of clock
  readings taken, identifiers drawn and pipeline calls made so far.
\<close>

record orchestrator =
  conversations :: "(string \<times> conversation) list"
  metrics :: metrics
  clock_reads :: nat
  uuids_drawn :: nat
  swarm_calls :: nat

definition new_metrics :: metrics where
  "new_metrics =
     \<lparr>conversations_total = 0, conversations_by_stage = [], stage_transitions = [],
      agents_usage = [], conversion_by_stage = [], time_by_stage = [], abandonment_points = [],
      completed_conversations = 0, closed_sales = 0\<rparr>"

definition new_orchestrator :: orchestrator where
  "new_orchestrator =
     \<lparr>conversations = [], metrics = new_metrics, clock_reads = 0, uuids_drawn = 0,
      swarm_calls = 0\<rparr>"

text \<open>
  \<open>create_conversation\<close>. The model's \<open>Conversation(...)\<close> reads the clock for \<open>created_at\<close>
  and for \<open>updated_at\<close> and stores the stage it is given by its value; the fresh
  metadata has no key \<open>metadata\<close>, so it is replaced by an empty dictionary before
  \<open>started_at\<close> and \<open>stage_times\<close> are stored.
\<close>

definition create_conversation ::
  "surroundings \<Rightarrow> string option \<Rightarrow> string option \<Rightarrow> orchestrator \<Rightarrow>
   conversation \<times> orchestrator" where
  "create_conversation sur lead initial_message orch =
     (let conversation_id = uuid4 sur (uuids_drawn orch);
          n = clock_reads orch;
          c0 = \<lparr>conv_id = conversation_id, conv_lead_id = lead, messages = [],
                current_stage = PlainValue (stage_value FAQ), active_agent = None,
                conv_context = [], metadata = [],
                created_at = clock sur n, updated_at = clock sur (n + 1)\<rparr>;
          c1n = (if truthy initial_message
                 then add_message (clock sur) USER (the initial_message) None None (c0, n + 2)
                 else (c0, n + 2));
          c1 = fst c1n;
          n1 = snd c1n;
          m = metrics orch;
          m1 = m\<lparr>conversations_total := conversations_total m + 1,
                 conversations_by_stage := bump (stage_value FAQ) (conversations_by_stage m)\<rparr>;
          c2 = (if \<not> has_key (metadata c1) ''metadata'' then c1\<lparr>metadata := []\<rparr> else c1);
          c3 = set_metadata ''started_at'' (PFloat (clock sur n1)) c2;
          c4 = set_metadata ''stage_times''
                 (PDict [(stage_value FAQ, PFloat (clock sur (n1 + 1)))]) c3
      in (c4, orch\<lparr>conversations := dict_set conversation_id c4 (conversations orch),
                    metrics := m1, clock_reads := n1 + 2,
                    uuids_drawn := uuids_drawn orch + 1\<rparr>))"

definition get_conversation :: "orchestrator \<Rightarrow> string \<Rightarrow> conversation option" where
  "get_conversation orch conversation_id = dict_get (conversations orch) conversation_id"

definition stage_mapping :: "string \<Rightarrow> ConversationStage" where
  "stage_mapping agent =
     (if agent = ''researcher'' then FAQ
      else if agent = ''sales_agent'' then QUALIFICATION
      else if agent = ''qualification_agent'' then QUALIFICATION
      else if agent = ''presentation_agent'' then PRESENTATION
      else if agent = ''negotiation_agent'' then NEGOTIATION
      else if agent = ''closing_agent'' then CLOSING
      else FAQ)"

definition stage_times_of :: "pydict \<Rightarrow> pydict" where
  "stage_times_of md = (case dict_get md ''stage_times'' of Some (PDict d) \<Rightarrow> d | _ \<Rightarrow> [])"

text \<open>
  \<open>_track_stage_transition\<close>. Its first statement takes \<open>old_stage.value\<close>, which raises
  when the conversation still holds the plain string it was constructed with; nothing
  has been changed by then.
\<close>

definition track_stage_transition ::
  "surroundings \<Rightarrow> conversation \<Rightarrow> stage_field \<Rightarrow> ConversationStage \<Rightarrow> real \<Rightarrow> metrics \<Rightarrow>
   exn + conversation \<times> metrics" where
  "track_stage_transition sur c old_stage new_stage transition_start_time m =
     (case dot_value old_stage of
        Inl e \<Rightarrow> Inl e
      | Inr old_value \<Rightarrow>
          (let transition_key = old_value @ ''->'' @ stage_value new_stage;
               m1 = m\<lparr>stage_transitions := bump transition_key (stage_transitions m)\<rparr>;
               c1 = (if \<not> has_key (metadata c) ''stage_times''
                     then set_metadata ''stage_times'' (PDict []) c else c);
               times = stage_times_of (metadata c1);
               m2 = (case dict_get times old_value of
                       Some (PFloat t0) \<Rightarrow>
                         m1\<lparr>time_by_stage := append_sample old_value
                                 (time_sub sur transition_start_time t0) (time_by_stage m1)\<rparr>
                     | _ \<Rightarrow> m1);
               c2 = set_metadata ''stage_times''
                      (PDict (dict_set (stage_value new_stage) (PFloat transition_start_time)
                                times)) c1;
               m3 = m2\<lparr>conversion_by_stage :=
                         bump (stage_value new_stage) (conversion_by_stage m2),
                       conversations_by_stage :=
                         bump (stage_value new_stage) (conversations_by_stage m2)\<rparr>
           in Inr (c2, m3)))"

definition last_agent_of :: "swarm_result \<Rightarrow> string" where
  "last_agent_of result =
     (if node_history result \<noteq> []
      then (case last (node_history result) of Some n \<Rightarrow> n | None \<Rightarrow> ''researcher'')
      else if agents_used result \<noteq> [] then last (agents_used result)
      else ''researcher'')"

text \<open>The bookkeeping of a turn that ended in the closing stage, and in the completed stage.\<close>

definition track_closing ::
  "surroundings \<Rightarrow> swarm_result \<Rightarrow> ConversationStage \<Rightarrow> conversation \<times> metrics \<times> nat \<Rightarrow>
   conversation \<times> metrics \<times> nat" where
  "track_closing sur result new_stage = (\<lambda>(c, m, n).
     (if new_stage = CLOSING then
        (let m' = m\<lparr>conversion_by_stage := bump (stage_value CLOSING) (conversion_by_stage m)\<rparr>
         in if ''closing_agent'' \<in> set (agents_used result)
            then (set_metadata ''closed_at'' (PFloat (clock sur n))
                    (set_metadata ''sale_closed'' (PBool True) c),
                  m'\<lparr>closed_sales := closed_sales m' + 1\<rparr>, n + 1)
            else (c, m', n))
      else (c, m, n)))"

definition track_completion ::
  "surroundings \<Rightarrow> ConversationStage \<Rightarrow> conversation \<times> metrics \<times> nat \<Rightarrow>
   conversation \<times> metrics \<times> nat" where
  "track_completion sur new_stage = (\<lambda>(c, m, n).
     (if new_stage = COMPLETED
      then (set_metadata ''completed_at'' (PFloat (clock sur n)) c,
            m\<lparr>completed_conversations := completed_conversations m + 1\<rparr>, n + 1)
      else (c, m, n)))"

text \<open>
  The part of \<open>process_message\<close> inside \<open>try\<close>, after the pipeline has returned: the
  agent's response is appended when it is not empty, the transition is tracked when the
  stage differs, then stage, active agent and metrics are updated. An exception leaves
  the conversation and the orchestrator as they are at that point.
\<close>

definition add_agent_response ::
  "surroundings \<Rightarrow> swarm_result \<Rightarrow> conversation \<times> nat \<Rightarrow> conversation \<times> nat" where
  "add_agent_response sur result cn =
     (if response result \<noteq> []
      then add_message (clock sur) AGENT (response result) (Some ''swarm'')
             (Some (passed_on result)) cn
      else cn)"

definition track_if_changed ::
  "surroundings \<Rightarrow> conversation \<Rightarrow> stage_field \<Rightarrow> ConversationStage \<Rightarrow> real \<Rightarrow> metrics \<Rightarrow>
   exn + conversation \<times> metrics" where
  "track_if_changed sur c old_stage new_stage process_start_time m =
     (if field_value old_stage \<noteq> stage_value new_stage
      then track_stage_transition sur c old_stage new_stage process_start_time m
      else Inr (c, m))"

definition after_swarm ::
  "surroundings \<Rightarrow> swarm_result \<Rightarrow> stage_field \<Rightarrow> real \<Rightarrow> conversation \<Rightarrow> orchestrator \<Rightarrow>
   (exn + pydict) \<times> conversation \<times> orchestrator" where
  "after_swarm sur result old_stage process_start_time c orch =
     (let response_text = response result;
          c1n = add_agent_response sur result (c, clock_reads orch);
          c1 = fst c1n;
          n1 = snd c1n;
          last_agent = last_agent_of result;
          new_stage = stage_mapping last_agent
      in case track_if_changed sur c1 old_stage new_stage process_start_time (metrics orch) of
           Inl e \<Rightarrow> (Inl e, c1, orch\<lparr>clock_reads := n1\<rparr>)
         | Inr c2m \<Rightarrow>
             (let c3 = set_active_agent last_agent (set_current_stage new_stage (fst c2m));
                  m3 = (snd c2m)\<lparr>agents_usage :=
                          foldl (\<lambda>d a. bump a d) (agents_usage (snd c2m)) (agents_used result)\<rparr>;
                  done = track_completion sur new_stage
                           (track_closing sur result new_stage (c3, m3, n1));
                  c5 = fst done
              in (Inr [(''conversation_id'', PStr (conv_id c5)),
                       (''response'', PStr response_text),
                       (''agent_id'', PStr (if agents_used result \<noteq> []
                                            then last (agents_used result) else ''swarm'')),
                       (''stage'', PStr (field_value (current_stage c5))),
                       (''metadata'', PDict (passed_on result))],
                  c5, orch\<lparr>metrics := fst (snd done), clock_reads := snd (snd done)\<rparr>)))"

definition error_result :: "exn \<Rightarrow> conversation \<Rightarrow> pydict" where
  "error_result e c =
     [(''error'', PStr ''Erro ao processar mensagem''),
      (''conversation_id'', PStr (conv_id c)),
      (''error_type'', PStr (type_name e))]"

text \<open>
  The conversation object is the one held in \<open>self.conversations\<close> under its id, so what
  was done to it is stored back under that id.
\<close>

definition store :: "conversation \<Rightarrow> orchestrator \<Rightarrow> orchestrator" where
  "store c orch = orch\<lparr>conversations := dict_set (conv_id c) c (conversations orch)\<rparr>"

text \<open>\<open>process_message\<close> from the point where the conversation object is known.\<close>

definition process_with ::
  "surroundings \<Rightarrow> string \<Rightarrow> pydict option \<Rightarrow> conversation \<Rightarrow> orchestrator \<Rightarrow>
   pydict \<times> orchestrator" where
  "process_with sur text context c orch =
     (let c1n = add_message (clock sur) USER text None None (c, clock_reads orch);
          c1 = fst c1n;
          n1 = snd c1n;
          process_start_time = clock sur n1;
          old_stage = current_stage c1;
          orch1 = orch\<lparr>clock_reads := n1 + 1, swarm_calls := swarm_calls orch + 1\<rparr>
      in case swarm_process sur (swarm_calls orch) text context of
           Inl e \<Rightarrow> (error_result e c1, store c1 orch1)
         | Inr result \<Rightarrow>
             (let out = after_swarm sur result old_stage process_start_time c1 orch1;
                  c2 = fst (snd out);
                  orch2 = snd (snd out)
              in case fst out of
                   Inl e \<Rightarrow> (error_result e c2, store c2 orch2)
                 | Inr r \<Rightarrow> (r, store c2 orch2)))"

definition process_message ::
  "surroundings \<Rightarrow> string \<Rightarrow> string option \<Rightarrow> pydict option \<Rightarrow> orchestrator \<Rightarrow>
   pydict \<times> orchestrator" where
  "process_message sur text conversation_id context orch =
     (if truthy conversation_id then
        (case get_conversation orch (the conversation_id) of
           None \<Rightarrow>
             ([(''error'', PStr ''Conversation not found''),
               (''conversation_id'', PStr (the conversation_id))], orch)
         | Some c \<Rightarrow> process_with sur text context c orch)
      else
        (let created = create_conversation sur None (Some text) orch
         in process_with sur text context (fst created) (snd created)))"

text \<open>\<open>get_conversion_metrics\<close>: the derived figures next to the counters they come from.\<close>

record metrics_view =
  total_conversations :: int
  view_completed_conversations :: int
  view_closed_sales :: int
  sales_conversion_rate :: real
  abandonment_rate :: real
  conversion_rates_by_stage :: "(string \<times> real) list"
  average_time_by_stage :: "(string \<times> real) list"

definition get_conversion_metrics :: "surroundings \<Rightarrow> orchestrator \<Rightarrow> metrics_view" where
  "get_conversion_metrics sur orch =
     (let m = metrics orch;
          avg_time_by_stage =
            map (\<lambda>(stage, times). (stage, float_mean sur times))
              (filter (\<lambda>(stage, times). times \<noteq> []) (time_by_stage m));
          total = conversations_total m;
          conversion_rates =
            (if total > 0
             then map (\<lambda>(stage, count). (stage, float_mul sur (true_div sur count total) 100))
                    (conversion_by_stage m)
             else []);
          abandonment =
            (if total > 0
             then float_mul sur (true_div sur (total - completed_conversations m) total) 100
             else 0);
          sales_rate =
            (if total > 0 then float_mul sur (true_div sur (closed_sales m) total) 100 else 0)
      in \<lparr>total_conversations = total,
          view_completed_conversations = completed_conversations m,
          view_closed_sales = closed_sales m,
          sales_conversion_rate = sales_rate,
          abandonment_rate = abandonment,
          conversion_rates_by_stage = conversion_rates,
          average_time_by_stage = avg_time_by_stage\<rparr>)"

text \<open>
  Surroundings for concrete runs: the clock advances by one second per reading, the
  identifiers are \<open>conv-0\<close>, \<open>conv-1\<close> and so on, the pipeline answers its first call
  through the researcher and every later call through the closing agent, and the
  arithmetic is exact, as floats are on the small whole numbers of these runs.
\<close>

definition agent_turn :: "string \<Rightarrow> swarm_result" where
  "agent_turn agent =
     \<lparr>response = ''ok'', agents_used = [agent], node_history = [Some agent], passed_on = []\<rparr>"

definition demo_surroundings :: surroundings where
  "demo_surroundings =
     \<lparr>clock = (\<lambda>n. real n),
      uuid4 = (\<lambda>n. ''conv-'' @ str_nat n),
      swarm_process = (\<lambda>k text context.
        Inr (agent_turn (if k = 0 then ''researcher'' else ''closing_agent''))),
      time_sub = (\<lambda>a b. a - b),
      true_div = (\<lambda>a b. real_of_int a / real_of_int b),
      float_mul = (\<lambda>a b. a * b),
      float_mean = (\<lambda>xs. sum_list xs / real (length xs))\<rparr>"

text \<open>
  One conversation, three turns: the first message opens it and is answered by the
  researcher, the second and the third are answered by the closing agent.
\<close>

definition turn1 :: "pydict \<times> orchestrator" where
  "turn1 = process_message demo_surroundings ''hello'' None None new_orchestrator"

definition turn2 :: "pydict \<times> orchestrator" where
  "turn2 = process_message demo_surroundings ''we buy'' (Some ''conv-0'') None (snd turn1)"

definition turn3 :: "pydict \<times> orchestrator" where
  "turn3 = process_message demo_surroundings ''yes'' (Some ''conv-0'') None (snd turn2)"

section \<open>Theorems\<close>

declare retry_loop.simps [simp del]

lemma retry_loop_ok:
  assumes "attempt < max_retries" and "func (inner env) = (Inr v, s')"
  shows "retry_loop attempt max_retries d b func le env = (Inr v, enter env s')"
  using assms by (subst retry_loop.simps) simp

lemma retry_loop_again:
  assumes "attempt < max_retries - 1" and "func (inner env) = (Inl e, s')"
  shows "retry_loop attempt max_retries d b func le env =
         retry_loop (attempt + 1) max_retries (d * b) b func (Some e)
           (asyncio_sleep d (enter env s'))"
  using assms by (subst retry_loop.simps) simp

lemma retry_loop_last:
  assumes "attempt = max_retries - 1" and "func (inner env) = (Inl e, s')"
  shows "retry_loop attempt max_retries d b func le env = (Inl e, enter env s')"
  using assms by (subst retry_loop.simps) simp

subsection \<open>Retry policy\<close>

lemma inner_sleep_enter: "inner (asyncio_sleep d (enter env s')) = s'"
  by (simp add: asyncio_sleep_def enter_def)

lemma retry_default_three_calls:
  assumes f1: "func (inner env) = (Inl e1, s1)"
    and f2: "func s1 = (Inl e2, s2)"
    and f3: "func s2 = (r, s3)"
  shows "retry_default func env =
         (r, \<lparr>inner = s3, slept = slept env @ [1, 2], calls = calls env + 3\<rparr>)"
proof -
  let ?env1 = "asyncio_sleep 1 (enter env s1)"
  let ?env2 = "asyncio_sleep (1 * 2) (enter ?env1 s2)"
  have a: "retry_loop 0 3 1 2 func None env = retry_loop (0 + 1) 3 (1 * 2) 2 func (Some e1) ?env1"
    by (rule retry_loop_again) (simp_all add: f1)
  have b: "retry_loop (0 + 1) 3 (1 * 2) 2 func (Some e1) ?env1 =
           retry_loop (0 + 1 + 1) 3 (1 * 2 * 2) 2 func (Some e2) ?env2"
    by (rule retry_loop_again) (simp_all add: f2 inner_sleep_enter)
  have c: "retry_loop (0 + 1 + 1) 3 (1 * 2 * 2) 2 func (Some e2) ?env2 = (r, enter ?env2 s3)"
  proof (cases r)
    case (Inl e3)
    show ?thesis unfolding Inl
      by (rule retry_loop_last) (simp_all add: f3 inner_sleep_enter Inl)
  next
    case (Inr v)
    show ?thesis unfolding Inr
      by (rule retry_loop_ok) (simp_all add: f3 inner_sleep_enter Inr)
  qed
  have d: "enter ?env2 s3 = \<lparr>inner = s3, slept = slept env @ [1, 2], calls = calls env + 3\<rparr>"
    by (simp add: asyncio_sleep_def enter_def)
  show ?thesis
    unfolding retry_default_def retry_on_error_def a b c d ..
qed

text \<open>
  C6. Under \<open>@retry_on_error(max_retries=3, delay=1.0, backoff=2.0)\<close>: an operation that
  raises on its first two invocations and returns \<open>v\<close> on the third makes the wrapper
  return \<open>v\<close> after exactly three invocations; an operation that raises on all three is
  invoked exactly three times and its last exception is re-raised. In both runs the
  wrapper sleeps exactly twice between consecutive invocations, first 1 second and then
  1 * 2 = 2 seconds.
\<close>

theorem retry_policy_default:
  "(func (inner env) = (Inl e1, s1) \<and> func s1 = (Inl e2, s2) \<and> func s2 = (Inr v, s3)
      \<longrightarrow> retry_default func env =
          (Inr v, \<lparr>inner = s3, slept = slept env @ [1, 2], calls = calls env + 3\<rparr>))
   \<and> (func (inner env) = (Inl e1, s1) \<and> func s1 = (Inl e2, s2) \<and> func s2 = (Inl e3, s3)
      \<longrightarrow> retry_default func env =
          (Inl e3, \<lparr>inner = s3, slept = slept env @ [1, 2], calls = calls env + 3\<rparr>))"
  using retry_default_three_calls [of func env e1 s1 e2 s2] by blast

theorem retry_policy_default_witness:
  "retry_default scripted
     \<lparr>inner = [Inl (RuntimeError ''a''), Inl (RuntimeError ''b''), Inr (7::nat)],
      slept = [], calls = 0\<rparr>
   = (Inr 7, \<lparr>inner = [], slept = [1, 2], calls = 3\<rparr>)
   \<and> retry_default scripted
     \<lparr>inner = [Inl (RuntimeError ''a''), Inl (RuntimeError ''b''), Inl (RuntimeError ''c''),
               Inr (7::nat)],
      slept = [], calls = 0\<rparr>
   = (Inl (RuntimeError ''c''), \<lparr>inner = [Inr 7], slept = [1, 2], calls = 3\<rparr>)"
  using
    retry_policy_default [of scripted
      "\<lparr>inner = [Inl (RuntimeError ''a''), Inl (RuntimeError ''b''), Inr (7::nat)],
        slept = [], calls = 0\<rparr>"
      "RuntimeError ''a''" "[Inl (RuntimeError ''b''), Inr 7]"
      "RuntimeError ''b''" "[Inr 7]" 7 "[]"]
    retry_policy_default [of scripted
      "\<lparr>inner = [Inl (RuntimeError ''a''), Inl (RuntimeError ''b''), Inl (RuntimeError ''c''),
                 Inr (7::nat)],
        slept = [], calls = 0\<rparr>"
      "RuntimeError ''a''" "[Inl (RuntimeError ''b''), Inl (RuntimeError ''c''), Inr 7]"
      "RuntimeError ''b''" "[Inl (RuntimeError ''c''), Inr 7]" 7 "[Inr 7]"
      "RuntimeError ''c''" ]
  by simp

subsection \<open>The clients' cache\<close>

lemma retry_default_first_ok:
  assumes "func (inner env) = (Inr v, s')"
  shows "retry_default func env = (Inr v, enter env s')"
  unfolding retry_default_def retry_on_error_def
  by (rule retry_loop_ok) (simp_all add: assms)

lemma call_and_store_ok:
  assumes "cache_enabled tool"
    and "crm_server_call tool tool_name params (crm_server st) = (Inr r, p')"
  shows "call_and_store tool tool_name prefix params k st =
         (Inr r, st\<lparr>crm_server := p', server_calls := server_calls st + 1,
                    time_reads := time_reads st + 1,
                    cache := (cache st)(k \<mapsto> (r, time_time tool (time_reads st)))\<rparr>)"
  using assms by (simp add: call_and_store_def read_time_def)

lemma call_and_store_calls:
  "server_calls (snd (call_and_store tool tool_name prefix params k st)) = server_calls st + 1"
  by (simp add: call_and_store_def read_time_def Let_def split: prod.splits sum.splits)

lemma cached_read_miss:
  assumes "cache_enabled tool"
    and "cache st (get_cache_key tool_name params) = None"
  shows "cached_read tool tool_name prefix params st =
         call_and_store tool tool_name prefix params (get_cache_key tool_name params) st"
  using assms by (simp add: cached_read_def)

lemma cached_read_hit:
  assumes "cache_enabled tool"
    and "cache st (get_cache_key tool_name params) = Some (d, t)"
    and "float_sub tool (time_time tool (time_reads st)) t < real_of_int (cache_ttl tool)"
  shows "cached_read tool tool_name prefix params st =
         (Inr d, st\<lparr>time_reads := time_reads st + 1\<rparr>)"
  using assms by (simp add: cached_read_def is_cache_valid_def read_time_def)

lemma cached_read_expired:
  assumes "cache_enabled tool"
    and "cache st (get_cache_key tool_name params) = Some (d, t)"
    and "\<not> float_sub tool (time_time tool (time_reads st)) t < real_of_int (cache_ttl tool)"
  shows "cached_read tool tool_name prefix params st =
         call_and_store tool tool_name prefix params (get_cache_key tool_name params)
           (st\<lparr>time_reads := time_reads st + 1\<rparr>)"
  using assms by (simp add: cached_read_def is_cache_valid_def read_time_def)

text \<open>
  A read that ends with the provider's call count unchanged has returned a stored entry
  whose age, at the reading taken for the check, is below the TTL.
\<close>

lemma cached_read_without_call:
  assumes "cached_read tool tool_name prefix params st = (r, st')"
    and "server_calls st' = server_calls st"
  shows "\<exists>d t. r = Inr d \<and> cache st (get_cache_key tool_name params) = Some (d, t)
             \<and> float_sub tool (time_time tool (time_reads st)) t < real_of_int (cache_ttl tool)"
proof (cases "cache_enabled tool")
  case False
  then have "cached_read tool tool_name prefix params st =
             call_and_store tool tool_name prefix params (get_cache_key tool_name params) st"
    by (simp add: cached_read_def)
  with assms call_and_store_calls [of tool tool_name prefix params _ st] show ?thesis
    by (metis Suc_n_not_n Suc_eq_plus1 snd_conv)
next
  case en: True
  show ?thesis
  proof (cases "cache st (get_cache_key tool_name params)")
    case None
    with assms cached_read_miss [OF en None, of prefix]
      call_and_store_calls [of tool tool_name prefix params _ st] show ?thesis
      by (metis Suc_n_not_n Suc_eq_plus1 snd_conv)
  next
    case (Some e)
    obtain d t where e: "e = (d, t)" by (cases e)
    show ?thesis
    proof (cases "float_sub tool (time_time tool (time_reads st)) t < real_of_int (cache_ttl tool)")
      case True
      with assms cached_read_hit [OF en Some [unfolded e] True, of prefix] Some e
      show ?thesis by simp
    next
      case False
      have "server_calls (snd (cached_read tool tool_name prefix params st))
            = server_calls st + 1"
        unfolding cached_read_expired [OF en Some [unfolded e] False]
        by (simp add: call_and_store_calls)
      with assms show ?thesis by simp
    qed
  qed
qed

lemma cached_read_mono:
  "server_calls st \<le> server_calls (snd (cached_read tool tool_name prefix params st))"
  by (simp add: cached_read_def is_cache_valid_def read_time_def call_and_store_calls Let_def
        split: option.splits prod.splits)

lemma read_body_accepted:
  assumes "accepted c"
  shows "\<exists>prefix. \<forall>st. read_body tool c st
           = cached_read tool (sent_name c) prefix (sent_params c) st"
  using assms
  by (cases c)
     (auto simp: get_lead_info_body_def get_sales_history_body_def get_products_body_def
        get_product_details_body_def search_products_body_def get_conversion_metrics_body_def
        get_funnel_analytics_body_def lead_info_params_def)

lemma read_body_refused:
  assumes "\<not> accepted c"
  shows "\<exists>e. \<forall>st. read_body tool c st = (Inl e, st)"
  using assms
  by (cases c)
     (auto simp: get_lead_info_body_def get_product_details_body_def search_products_body_def)

lemma read_retry: "read tool c = retry_default (read_body tool c)"
  by (cases c)
     (simp_all add: get_lead_info_def get_sales_history_def get_products_def
        get_product_details_def search_products_def get_conversion_metrics_tool_def
        get_funnel_analytics_def)

lemma read_body_mono: "server_calls st \<le> server_calls (snd (read_body tool c st))"
proof (cases "accepted c")
  case True
  from read_body_accepted [OF True] obtain prefix where
    "\<forall>st. read_body tool c st = cached_read tool (sent_name c) prefix (sent_params c) st"
    by blast
  then show ?thesis by (simp add: cached_read_mono)
next
  case False
  from read_body_refused [OF False] obtain e where "\<forall>st. read_body tool c st = (Inl e, st)"
    by blast
  then show ?thesis by simp
qed
lemma opt_str_inj: "opt_str x = opt_str y \<longleftrightarrow> x = y"
  by (cases x; cases y) (simp_all add: opt_str_def)

text \<open>Two calls build the same cache key only when they are the same call.\<close>

lemma cache_key_inj:
  assumes "get_cache_key (sent_name c) (sent_params c)
           = get_cache_key (sent_name c') (sent_params c')"
  shows "c = c'"
  using assms
  by (cases c; cases c')
     (simp_all add: get_cache_key_def sort_items_def lead_info_params_def opt_str_inj)

text \<open>What never decreases under the decorated function never decreases under the loop.\<close>

lemma retry_loop_mono:
  fixes f :: "'s \<Rightarrow> nat"
  assumes mono: "\<And>s. f s \<le> f (snd (func s))"
  shows "f (inner env) \<le> f (inner (snd (retry_loop attempt max_retries d b func le env)))"
  using mono
proof (induction attempt max_retries d b func le env rule: retry_loop.induct)
  case (1 attempt max_retries d b func le env)
  note mono' = "1.prems"
  obtain r s' where fs: "func (inner env) = (r, s')" by (cases "func (inner env)")
  have step: "f (inner env) \<le> f s'"
    using mono' [of "inner env"] by (simp add: fs)
  show ?case
  proof (cases "attempt < max_retries")
    case False
    then show ?thesis
      by (subst retry_loop.simps) (simp split: option.splits)
  next
    case lt: True
    show ?thesis
    proof (cases r)
      case (Inr v)
      with lt fs step show ?thesis
        by (subst retry_loop.simps) (simp add: enter_def)
    next
      case (Inl e)
      show ?thesis
      proof (cases "attempt < max_retries - 1")
        case False
        with lt fs Inl step show ?thesis
          by (subst retry_loop.simps) (simp add: enter_def)
      next
        case True
        have "f (inner (asyncio_sleep d (enter env s')))
              \<le> f (inner (snd (retry_loop (attempt + 1) max_retries (d * b) b func (Some e)
                                  (asyncio_sleep d (enter env s')))))"
          using "1.IH" [OF lt refl fs [symmetric] refl Inl True mono'] .
        moreover have "f (inner (asyncio_sleep d (enter env s'))) = f s'"
          by (simp add: asyncio_sleep_def enter_def)
        ultimately show ?thesis
          using lt fs Inl True step
          by (subst retry_loop.simps) simp
      qed
    qed
  qed
qed

lemma retry_default_after_first:
  fixes f :: "'s \<Rightarrow> nat"
  assumes mono: "\<And>s. f s \<le> f (snd (func s))"
  shows "f (snd (func (inner env))) \<le> f (inner (snd (retry_default func env)))"
proof -
  obtain r s' where fs: "func (inner env) = (r, s')" by (cases "func (inner env)")
  show ?thesis
  proof (cases r)
    case (Inr v)
    then show ?thesis
      using retry_default_first_ok [of func env v s'] fs by (simp add: enter_def)
  next
    case (Inl e)
    have "retry_default func env
          = retry_loop (0 + 1) 3 (1 * 2) 2 func (Some e) (asyncio_sleep 1 (enter env s'))"
      unfolding retry_default_def retry_on_error_def
      by (rule retry_loop_again) (simp_all add: fs Inl)
    moreover have "f (inner (asyncio_sleep 1 (enter env s')))
          \<le> f (inner (snd (retry_loop (0 + 1) 3 (1 * 2) 2 func (Some e)
                              (asyncio_sleep 1 (enter env s')))))"
      by (rule retry_loop_mono [of f func, OF mono])
    ultimately show ?thesis
      by (simp add: fs inner_sleep_enter)
  qed
qed
lemma read_first_ok:
  assumes b: "read_body tool c (inner env) = (Inr v, s')"
    and g: "read tool c env = (res, env')"
  shows "res = Inr v" and "inner env' = s'"
proof -
  have "(res, env') = (Inr v, enter env s')"
    using g retry_default_first_ok [of "read_body tool c" env, OF b] by (simp add: read_retry)
  then show "res = Inr v" and "inner env' = s'"
    by (simp_all add: enter_def)
qed

lemma read_after_first:
  assumes "read tool c env = (res, env')"
  shows "server_calls (snd (read_body tool c (inner env))) \<le> server_calls (inner env')"
  using retry_default_after_first [of server_calls "read_body tool c" env, OF read_body_mono]
    assms
  by (simp add: read_retry)

text \<open>
  A decorated read that returns with the provider's call count unchanged has returned
  a stored entry of the same call whose age at the first check is below the TTL.
\<close>

lemma read_without_call:
  assumes r: "read tool c env = (Inr d, env')"
    and same: "server_calls (inner env') = server_calls (inner env)"
  shows "\<exists>t. cache (inner env) (call_key c) = Some (d, t)
           \<and> float_sub tool (time_time tool (time_reads (inner env))) t
               < real_of_int (cache_ttl tool)"
proof (cases "accepted c")
  case False
  from read_body_refused [OF False] obtain e where
    e: "\<forall>st. read_body tool c st = (Inl e, st)"
    by blast
  have "read tool c env = (Inl e, \<lparr>inner = inner env, slept = slept env @ [1, 2],
                                   calls = calls env + 3\<rparr>)"
    unfolding read_retry
    by (rule retry_default_three_calls
          [of "read_body tool c" env e "inner env" e "inner env"]) (simp_all add: e)
  with r show ?thesis by simp
next
  case True
  from read_body_accepted [OF True] obtain prefix where
    p: "\<forall>st. read_body tool c st = cached_read tool (sent_name c) prefix (sent_params c) st"
    by blast
  obtain r0 s' where b: "read_body tool c (inner env) = (r0, s')"
    by (cases "read_body tool c (inner env)")
  have "server_calls s' \<le> server_calls (inner env)"
    using read_after_first [OF r] same b by simp
  moreover have "server_calls (inner env) \<le> server_calls s'"
    using read_body_mono [of "inner env" tool c] b by simp
  ultimately have eq: "server_calls s' = server_calls (inner env)"
    by simp
  from b p have "cached_read tool (sent_name c) prefix (sent_params c) (inner env) = (r0, s')"
    by simp
  from cached_read_without_call [OF this eq] obtain d0 t where
    d0: "r0 = Inr d0" and e: "cache (inner env) (get_cache_key (sent_name c) (sent_params c))
                              = Some (d0, t)"
    and a: "float_sub tool (time_time tool (time_reads (inner env))) t
            < real_of_int (cache_ttl tool)"
    by blast
  have "d = d0"
    using read_first_ok(1) [OF b [unfolded d0] r] by simp
  with e a show ?thesis
    by (auto simp: call_key_def)
qed

lemma two_reads:
  assumes en: "cache_enabled tool" and ok: "accepted c"
    and miss: "cache (inner env0) (call_key c) = None"
    and srv1: "crm_server_call tool (sent_name c) (sent_params c) (crm_server (inner env0))
                 = (Inr r1, p1)"
    and first: "read tool c env0 = (res1, env1)"
  shows "res1 = Inr r1"
    and "server_calls (inner env1) = server_calls (inner env0) + 1"
    and "cache (inner env1) (call_key c) = Some (r1, time_time tool (time_reads (inner env0)))"
    and "\<And>res2 env2.
           read tool c env1 = (res2, env2) \<Longrightarrow>
           float_sub tool (time_time tool (time_reads (inner env0) + 1))
               (time_time tool (time_reads (inner env0))) < real_of_int (cache_ttl tool) \<Longrightarrow>
           res2 = Inr r1 \<and> server_calls (inner env2) = server_calls (inner env1)
           \<and> cache (inner env2) = cache (inner env1)"
    and "\<And>res2 env2.
           read tool c env1 = (res2, env2) \<Longrightarrow>
           \<not> float_sub tool (time_time tool (time_reads (inner env0) + 1))
               (time_time tool (time_reads (inner env0))) < real_of_int (cache_ttl tool) \<Longrightarrow>
           server_calls (inner env1) < server_calls (inner env2)
           \<and> (\<forall>r2 p2. crm_server_call tool (sent_name c) (sent_params c) p1 = (Inr r2, p2)
                \<longrightarrow> res2 = Inr r2
                    \<and> server_calls (inner env2) = server_calls (inner env1) + 1
                    \<and> cache (inner env2) (call_key c)
                        = Some (r2, time_time tool (time_reads (inner env0) + 2)))"
    and "\<And>c' res' env'.
           accepted c' \<Longrightarrow> c' \<noteq> c \<Longrightarrow> cache (inner env0) (call_key c') = None \<Longrightarrow>
           read tool c' env1 = (res', env') \<Longrightarrow>
           server_calls (inner env1) < server_calls (inner env')"
proof -
  let ?key = "get_cache_key (sent_name c) (sent_params c)"
  let ?s0 = "inner env0"
  let ?t1 = "time_time tool (time_reads ?s0)"
  let ?s1 = "?s0\<lparr>crm_server := p1, server_calls := server_calls ?s0 + 1,
                  time_reads := time_reads ?s0 + 1, cache := (cache ?s0)(?key \<mapsto> (r1, ?t1))\<rparr>"
  from read_body_accepted [OF ok] obtain prefix where
    p: "\<And>st. read_body tool c st = cached_read tool (sent_name c) prefix (sent_params c) st"
    by blast
  have miss': "cache ?s0 ?key = None"
    using miss by (simp add: call_key_def)
  have b1: "read_body tool c ?s0 = (Inr r1, ?s1)"
    unfolding p cached_read_miss [OF en miss']
    by (rule call_and_store_ok [OF en srv1])
  have i1: "inner env1 = ?s1"
    by (rule read_first_ok [OF b1 first])
  show "res1 = Inr r1"
    by (rule read_first_ok [OF b1 first])
  show "server_calls (inner env1) = server_calls (inner env0) + 1"
    by (simp add: i1)
  have c1: "cache (inner env1) ?key = Some (r1, ?t1)"
    by (simp add: i1)
  then show "cache (inner env1) (call_key c) = Some (r1, ?t1)"
    by (simp add: call_key_def)
  have tr: "time_reads (inner env1) = time_reads ?s0 + 1"
    by (simp add: i1)
  {
    fix res2 env2
    assume second: "read tool c env1 = (res2, env2)"
      and fresh: "float_sub tool (time_time tool (time_reads ?s0 + 1)) ?t1
                  < real_of_int (cache_ttl tool)"
    have fresh': "float_sub tool (time_time tool (time_reads (inner env1))) ?t1
                  < real_of_int (cache_ttl tool)"
      using fresh by (simp add: tr)
    have b2: "read_body tool c (inner env1)
              = (Inr r1, (inner env1)\<lparr>time_reads := time_reads (inner env1) + 1\<rparr>)"
      unfolding p by (rule cached_read_hit [OF en c1 fresh'])
    have "res2 = Inr r1"
      and "inner env2 = (inner env1)\<lparr>time_reads := time_reads (inner env1) + 1\<rparr>"
      by (rule read_first_ok [OF b2 second])+
    then show "res2 = Inr r1 \<and> server_calls (inner env2) = server_calls (inner env1)
               \<and> cache (inner env2) = cache (inner env1)"
      by simp
  }
  {
    fix res2 env2
    assume second: "read tool c env1 = (res2, env2)"
      and stale: "\<not> float_sub tool (time_time tool (time_reads ?s0 + 1)) ?t1
                    < real_of_int (cache_ttl tool)"
    let ?s1' = "(inner env1)\<lparr>time_reads := time_reads (inner env1) + 1\<rparr>"
    have late: "\<not> float_sub tool (time_time tool (time_reads (inner env1))) ?t1
                  < real_of_int (cache_ttl tool)"
      using stale by (simp add: tr)
    have b2: "read_body tool c (inner env1)
              = call_and_store tool (sent_name c) prefix (sent_params c) ?key ?s1'"
      unfolding p by (rule cached_read_expired [OF en c1 late])
    have "server_calls (snd (read_body tool c (inner env1))) = server_calls (inner env1) + 1"
      unfolding b2 by (simp add: call_and_store_calls)
    with read_after_first [OF second]
    have more: "server_calls (inner env1) < server_calls (inner env2)"
      by simp
    have "\<forall>r2 p2. crm_server_call tool (sent_name c) (sent_params c) p1 = (Inr r2, p2)
                \<longrightarrow> res2 = Inr r2
                    \<and> server_calls (inner env2) = server_calls (inner env1) + 1
                    \<and> cache (inner env2) (call_key c)
                        = Some (r2, time_time tool (time_reads ?s0 + 2))"
    proof (intro allI impI)
      fix r2 p2
      assume srv2: "crm_server_call tool (sent_name c) (sent_params c) p1 = (Inr r2, p2)"
      have srv2': "crm_server_call tool (sent_name c) (sent_params c) (crm_server ?s1')
                   = (Inr r2, p2)"
        by (simp add: i1 srv2)
      have b3: "read_body tool c (inner env1) =
              (Inr r2, ?s1'\<lparr>crm_server := p2, server_calls := server_calls ?s1' + 1,
                    time_reads := time_reads ?s1' + 1,
                    cache := (cache ?s1')(?key \<mapsto> (r2, time_time tool (time_reads ?s1')))\<rparr>)"
        unfolding b2 by (rule call_and_store_ok [OF en srv2'])
      have "res2 = Inr r2"
        and "inner env2 = ?s1'\<lparr>crm_server := p2, server_calls := server_calls ?s1' + 1,
                    time_reads := time_reads ?s1' + 1,
                    cache := (cache ?s1')(?key \<mapsto> (r2, time_time tool (time_reads ?s1')))\<rparr>"
        by (rule read_first_ok [OF b3 second])+
      then show "res2 = Inr r2
                    \<and> server_calls (inner env2) = server_calls (inner env1) + 1
                    \<and> cache (inner env2) (call_key c)
                        = Some (r2, time_time tool (time_reads ?s0 + 2))"
        by (simp add: i1 call_key_def)
    qed
    with more show "server_calls (inner env1) < server_calls (inner env2)
           \<and> (\<forall>r2 p2. crm_server_call tool (sent_name c) (sent_params c) p1 = (Inr r2, p2)
                \<longrightarrow> res2 = Inr r2
                    \<and> server_calls (inner env2) = server_calls (inner env1) + 1
                    \<and> cache (inner env2) (call_key c)
                        = Some (r2, time_time tool (time_reads ?s0 + 2)))"
      by simp
  }
  {
    fix c' res' env'
    assume ok': "accepted c'" and ne: "c' \<noteq> c"
      and miss0: "cache (inner env0) (call_key c') = None"
      and other: "read tool c' env1 = (res', env')"
    let ?key' = "get_cache_key (sent_name c') (sent_params c')"
    from read_body_accepted [OF ok'] obtain prefix' where
      p': "\<And>st. read_body tool c' st
                 = cached_read tool (sent_name c') prefix' (sent_params c') st"
      by blast
    have "?key' \<noteq> ?key"
      using cache_key_inj [of c' c] ne by blast
    then have "cache (inner env1) ?key' = None"
      using miss0 by (simp add: i1 call_key_def)
    then have "read_body tool c' (inner env1)
               = call_and_store tool (sent_name c') prefix' (sent_params c') ?key' (inner env1)"
      unfolding p' by (rule cached_read_miss [OF en])
    then have "server_calls (snd (read_body tool c' (inner env1)))
               = server_calls (inner env1) + 1"
      by (simp add: call_and_store_calls)
    with read_after_first [OF other]
    show "server_calls (inner env1) < server_calls (inner env')"
      by simp
  }
qed
text \<open>
  C7. For each of the seven cached read methods of the three tools:
  \<^item> a call that returns with the provider's call count unchanged has returned the entry
    stored for the same method and parameters, and the age of that entry at the check,
    as the float subtraction gives it, is below the TTL, so an entry of age TTL or more
    is never returned;
  \<^item> with caching enabled, a call that passes the method's argument check, misses the
    cache and is answered by the provider calls the provider once and stores the result
    with the time of storing;
  \<^item> a second call of the same method with the same parameters whose age reading is
    below the TTL returns the same result without calling the provider and leaves the
    cache as it is;
  \<^item> a second call whose age reading is the TTL or more calls the provider again, and
    when the provider answers, returns the new result, having called it exactly once
    more, and stores it with the new time;
  \<^item> a call of another method, or of the same method with other parameters, that had no
    entry of its own is not served from that entry: it calls the provider.
\<close>

theorem cache_hit_within_ttl_then_reexecution:
  "(\<forall>env d env'.
      read tool c env = (Inr d, env') \<and> server_calls (inner env') = server_calls (inner env)
      \<longrightarrow> (\<exists>t. cache (inner env) (call_key c) = Some (d, t)
               \<and> float_sub tool (time_time tool (time_reads (inner env))) t
                   < real_of_int (cache_ttl tool)))
   \<and> (\<forall>env0 r1 p1 res1 env1.
        cache_enabled tool \<and> accepted c
        \<and> cache (inner env0) (call_key c) = None
        \<and> crm_server_call tool (sent_name c) (sent_params c) (crm_server (inner env0))
            = (Inr r1, p1)
        \<and> read tool c env0 = (res1, env1)
        \<longrightarrow> res1 = Inr r1
            \<and> server_calls (inner env1) = server_calls (inner env0) + 1
            \<and> cache (inner env1) (call_key c)
                = Some (r1, time_time tool (time_reads (inner env0)))
            \<and> (\<forall>res2 env2.
                  read tool c env1 = (res2, env2)
                  \<longrightarrow> (float_sub tool (time_time tool (time_reads (inner env0) + 1))
                           (time_time tool (time_reads (inner env0)))
                         < real_of_int (cache_ttl tool)
                       \<longrightarrow> res2 = Inr r1
                           \<and> server_calls (inner env2) = server_calls (inner env1)
                           \<and> cache (inner env2) = cache (inner env1))
                      \<and> (\<not> float_sub tool (time_time tool (time_reads (inner env0) + 1))
                             (time_time tool (time_reads (inner env0)))
                           < real_of_int (cache_ttl tool)
                         \<longrightarrow> server_calls (inner env1) < server_calls (inner env2)
                             \<and> (\<forall>r2 p2.
                                   crm_server_call tool (sent_name c) (sent_params c) p1
                                     = (Inr r2, p2)
                                   \<longrightarrow> res2 = Inr r2
                                       \<and> server_calls (inner env2)
                                           = server_calls (inner env1) + 1
                                       \<and> cache (inner env2) (call_key c)
                                           = Some (r2, time_time tool
                                                         (time_reads (inner env0) + 2)))))
            \<and> (\<forall>c' res' env'.
                  accepted c' \<and> c' \<noteq> c \<and> cache (inner env0) (call_key c') = None
                  \<and> read tool c' env1 = (res', env')
                  \<longrightarrow> server_calls (inner env1) < server_calls (inner env')))"
proof (intro conjI allI impI)
  fix env d env'
  assume "read tool c env = (Inr d, env')
          \<and> server_calls (inner env') = server_calls (inner env)"
  then show "\<exists>t. cache (inner env) (call_key c) = Some (d, t)
               \<and> float_sub tool (time_time tool (time_reads (inner env))) t
                   < real_of_int (cache_ttl tool)"
    using read_without_call [of tool c env d env'] by blast
next
  fix env0 r1 p1 res1 env1
  assume h: "cache_enabled tool \<and> accepted c
        \<and> cache (inner env0) (call_key c) = None
        \<and> crm_server_call tool (sent_name c) (sent_params c) (crm_server (inner env0))
            = (Inr r1, p1)
        \<and> read tool c env0 = (res1, env1)"
  then have en: "cache_enabled tool" and ok: "accepted c"
    and miss: "cache (inner env0) (call_key c) = None"
    and srv1: "crm_server_call tool (sent_name c) (sent_params c) (crm_server (inner env0))
               = (Inr r1, p1)"
    and first: "read tool c env0 = (res1, env1)"
    by simp_all
  note facts = two_reads [OF en ok miss srv1 first]
  show "res1 = Inr r1" by (rule facts(1))
  show "server_calls (inner env1) = server_calls (inner env0) + 1" by (rule facts(2))
  show "cache (inner env1) (call_key c) = Some (r1, time_time tool (time_reads (inner env0)))"
    by (rule facts(3))
  {
    fix res2 env2
    assume second: "read tool c env1 = (res2, env2)"
    {
      assume a: "float_sub tool (time_time tool (time_reads (inner env0) + 1))
                   (time_time tool (time_reads (inner env0))) < real_of_int (cache_ttl tool)"
      show "res2 = Inr r1" and "server_calls (inner env2) = server_calls (inner env1)"
        and "cache (inner env2) = cache (inner env1)"
        using facts(4) [OF second a] by simp_all
    }
    {
      assume a: "\<not> float_sub tool (time_time tool (time_reads (inner env0) + 1))
                   (time_time tool (time_reads (inner env0))) < real_of_int (cache_ttl tool)"
      show "server_calls (inner env1) < server_calls (inner env2)"
        using facts(5) [OF second a] by simp
      fix r2 p2
      assume s2: "crm_server_call tool (sent_name c) (sent_params c) p1 = (Inr r2, p2)"
      show "res2 = Inr r2" and "server_calls (inner env2) = server_calls (inner env1) + 1"
        and "cache (inner env2) (call_key c)
             = Some (r2, time_time tool (time_reads (inner env0) + 2))"
        using facts(5) [OF second a] s2 by simp_all
    }
  }
  fix c' res' env'
  assume "accepted c' \<and> c' \<noteq> c \<and> cache (inner env0) (call_key c') = None
          \<and> read tool c' env1 = (res', env')"
  then show "server_calls (inner env1) < server_calls (inner env')"
    using facts(6) [of c' res' env'] by simp
qed

theorem cache_hit_within_ttl_then_reexecution_witness:
  "fst history_read = Inr [(''success'', PBool True), (''serial'', PInt 0)]
   \<and> fst history_read_again = Inr [(''success'', PBool True), (''serial'', PInt 0)]
   \<and> server_calls (inner (snd history_read_again)) = 1
   \<and> server_calls (inner (snd history_read)) < server_calls (inner (snd history_read_other))
   \<and> fst history_read_slow_again = Inr [(''success'', PBool True), (''serial'', PInt 1)]
   \<and> server_calls (inner (snd history_read_slow_again)) = 2"
proof -
  let ?c = "GetSalesHistory (Some ''lead_001'') 10"
  let ?c' = "GetSalesHistory (Some ''lead_002'') 10"
  let ?r0 = "[(''success'', PBool True), (''serial'', PInt 0)]"
  let ?r1 = "[(''success'', PBool True), (''serial'', PInt 1)]"
  have h: "cache_enabled demo_tool \<and> accepted ?c
        \<and> cache (inner fresh_state) (call_key ?c) = None
        \<and> crm_server_call demo_tool (sent_name ?c) (sent_params ?c)
             (crm_server (inner fresh_state)) = (Inr ?r0, 1)
        \<and> read demo_tool ?c fresh_state = (fst history_read, snd history_read)"
    by (simp add: demo_tool_def fresh_state_def counting_server_def history_read_def)
  note t = cache_hit_within_ttl_then_reexecution [of demo_tool ?c, THEN conjunct2, rule_format,
      OF h]
  have first: "fst history_read = Inr ?r0"
    and n1: "server_calls (inner (snd history_read)) = server_calls (inner fresh_state) + 1"
    using t by simp_all
  have again: "read demo_tool ?c (snd history_read)
               = (fst history_read_again, snd history_read_again)"
    by (simp add: history_read_again_def)
  have young: "float_sub demo_tool (time_time demo_tool (time_reads (inner fresh_state) + 1))
                 (time_time demo_tool (time_reads (inner fresh_state)))
               < real_of_int (cache_ttl demo_tool)"
    by (simp add: demo_tool_def fresh_state_def)
  from t [THEN conjunct2, THEN conjunct2, THEN conjunct2, THEN conjunct1, rule_format,
       OF again, THEN conjunct1, rule_format, OF young]
  have hit: "fst history_read_again = Inr ?r0"
    and n2: "server_calls (inner (snd history_read_again)) = server_calls (inner (snd history_read))"
    by simp_all
  have other: "accepted ?c' \<and> ?c' \<noteq> ?c \<and> cache (inner fresh_state) (call_key ?c') = None
               \<and> read demo_tool ?c' (snd history_read)
                   = (fst history_read_other, snd history_read_other)"
    by (simp add: fresh_state_def history_read_other_def)
  from t [THEN conjunct2, THEN conjunct2, THEN conjunct2, THEN conjunct2, rule_format, OF other]
  have apart: "server_calls (inner (snd history_read))
               < server_calls (inner (snd history_read_other))" .
  have hs: "cache_enabled slow_tool \<and> accepted ?c
        \<and> cache (inner fresh_state) (call_key ?c) = None
        \<and> crm_server_call slow_tool (sent_name ?c) (sent_params ?c)
             (crm_server (inner fresh_state)) = (Inr ?r0, 1)
        \<and> read slow_tool ?c fresh_state = (fst history_read_slow, snd history_read_slow)"
    by (simp add: slow_tool_def demo_tool_def fresh_state_def counting_server_def
          history_read_slow_def)
  note ts = cache_hit_within_ttl_then_reexecution [of slow_tool ?c, THEN conjunct2, rule_format,
      OF hs]
  have m1: "server_calls (inner (snd history_read_slow)) = server_calls (inner fresh_state) + 1"
    using ts by simp
  have again_slow: "read slow_tool ?c (snd history_read_slow)
               = (fst history_read_slow_again, snd history_read_slow_again)"
    by (simp add: history_read_slow_again_def)
  have old: "\<not> float_sub slow_tool (time_time slow_tool (time_reads (inner fresh_state) + 1))
                 (time_time slow_tool (time_reads (inner fresh_state)))
               < real_of_int (cache_ttl slow_tool)"
    by (simp add: slow_tool_def demo_tool_def fresh_state_def)
  have srv2: "crm_server_call slow_tool (sent_name ?c) (sent_params ?c) 1 = (Inr ?r1, 2)"
    by (simp add: slow_tool_def demo_tool_def counting_server_def)
  from ts [THEN conjunct2, THEN conjunct2, THEN conjunct2, THEN conjunct1, rule_format,
       OF again_slow, THEN conjunct2, rule_format, OF old, THEN conjunct2, rule_format, OF srv2]
  have redo: "fst history_read_slow_again = Inr ?r1"
    and m2: "server_calls (inner (snd history_read_slow_again))
             = server_calls (inner (snd history_read_slow)) + 1"
    by simp_all
  have z: "server_calls (inner fresh_state) = 0"
    by (simp add: fresh_state_def)
  from first hit n1 n2 apart redo m1 m2 z show ?thesis
    by simp
qed

subsection \<open>Results of the CRM provider\<close>

text \<open>
  Read with the default the dispatcher uses (\<open>result.get("success", False)\<close>), a
  \<open>get_lead_info\<close> result is unsuccessful exactly when it has an \<open>error\<close> key.
\<close>

lemma get_lead_info_server_error_iff:
  "has_key (get_lead_info_server leads lead_id email) ''error''
   \<longleftrightarrow> success_or_false (get_lead_info_server leads lead_id email) = PBool False"
  by (simp add: get_lead_info_server_def has_key_def dict_keys_def dict_get_def
        success_or_false_def Let_def split: option.splits)

text \<open>The not-found result never carries a \<open>success\<close> key, whatever the leads are.\<close>

lemma get_lead_info_server_not_found:
  assumes "truthy lead_id" and "dict_get leads (the lead_id) = None"
  shows "get_lead_info_server leads lead_id email =
         [(''error'', PStr ''Lead not found''), (''lead_id'', opt_str lead_id),
          (''email'', opt_str email)]"
  using assms by (simp add: get_lead_info_server_def)

text \<open>
  C3. Looking up the lead id \<open>lead_999\<close>, which is not among the sample leads, returns a
  dictionary with an \<open>error\<close> key and no \<open>success\<close> key at all, while the lookup with no
  identifier returns \<open>success = False\<close> next to its \<open>error\<close>; \<open>update_lead_status\<close> of
  the unknown lead returns an \<open>error\<close> without \<open>success\<close> too.
\<close>

theorem lead_not_found_lacks_success:
  "get_lead_info_server (initial_leads 0) (Some ''lead_999'') None
     = [(''error'', PStr ''Lead not found''), (''lead_id'', PStr ''lead_999''), (''email'', PNone)]
   \<and> has_key (get_lead_info_server (initial_leads 0) (Some ''lead_999'') None) ''error''
   \<and> \<not> has_key (get_lead_info_server (initial_leads 0) (Some ''lead_999'') None) ''success''
   \<and> dict_get (get_lead_info_server (initial_leads 0) None None) ''success'' = Some (PBool False)
   \<and> has_key (get_lead_info_server (initial_leads 0) None None) ''error''
   \<and> fst (update_lead_status_server 1 (initial_leads 0) ''lead_999'' ''qualified'' None)
     = [(''error'', PStr ''Lead not found''), (''lead_id'', PStr ''lead_999'')]"
  by (simp add: get_lead_info_server_def update_lead_status_server_def initial_leads_def
        truthy_def dict_get_def has_key_def dict_keys_def opt_str_def)

subsection \<open>Missing parameters\<close>

lemma startswith_append: "startswith a (a @ v)"
  by (induction a) simp_all

lemma str_in_self_append: "str_in a (a @ v)"
  using startswith_append [of a v] by (cases "a @ v") auto

lemma str_in_append: "str_in a (u @ a @ v)"
proof (induction u)
  case Nil
  show ?case by (simp add: str_in_self_append)
next
  case (Cons x u)
  then show ?case by simp
qed

lemma str_in_middle: "str_in a (u @ a)"
  using str_in_append [of a u "[]"] by simp

lemma get_lead_info_without_identifier:
  assumes "\<not> truthy lead_id" and "\<not> truthy email"
  shows "get_lead_info tool lead_id email env =
         (Inl (ValueError ''Either lead_id or email must be provided''),
          \<lparr>inner = inner env, slept = slept env @ [1, 2], calls = calls env + 3\<rparr>)"
proof -
  have b: "get_lead_info_body tool lead_id email (inner env) =
           (Inl (ValueError ''Either lead_id or email must be provided''), inner env)"
    using assms by (simp add: get_lead_info_body_def)
  show ?thesis
    unfolding get_lead_info_def
    by (rule retry_default_three_calls
          [of "get_lead_info_body tool lead_id email" env _ "inner env" _ "inner env", OF b b b])
qed

lemma validate_required_params_message:
  assumes "missing_params params required \<noteq> []"
  shows "\<exists>m. validate_required_params params required tool_name = Inl (ValueError m)
             \<and> str_in (join '', '' (missing_params params required)) m
             \<and> str_in (if params \<noteq> [] then join '', '' (dict_keys params) else ''nenhum'') m
             \<and> str_in (join '', '' required) m"
proof -
  let ?a = "''Par'' @ [CHR 0xE2] @ ''metros obrigat'' @ [CHR 0xF3] @ ''rios faltando para tool '' @ [CHR 0x27] @ tool_name @ [CHR 0x27] @ '': ''"
  let ?mi = "join '', '' (missing_params params required)"
  let ?b = "''. Par'' @ [CHR 0xE2] @ ''metros fornecidos: ''"
  let ?pr = "if params \<noteq> [] then join '', '' (dict_keys params) else ''nenhum''"
  let ?c = "''. Par'' @ [CHR 0xE2] @ ''metros esperados: ''"
  let ?re = "join '', '' required"
  let ?m = "?a @ ?mi @ ?b @ ?pr @ ?c @ ?re"
  have v: "validate_required_params params required tool_name = Inl (ValueError ?m)"
    using assms by (simp add: validate_required_params_def Let_def)
  have "str_in ?mi ?m"
    by (rule str_in_append)
  moreover have "str_in ?pr ?m"
    using str_in_append [of ?pr "?a @ ?mi @ ?b" "?c @ ?re"] by (simp only: append_assoc)
  moreover have "str_in ?re ?m"
    using str_in_middle [of ?re "?a @ ?mi @ ?b @ ?pr @ ?c"] by (simp only: append_assoc)
  ultimately show ?thesis
    using v by blast
qed

text \<open>
  C5, as the code has it. With neither a lead id nor an email, \<open>get_lead_info\<close> enters its
  body three times, sleeps 1 second and then 2 seconds between the entries, leaves the
  cache, the provider and the clock untouched, and raises the \<open>ValueError\<close> of the third
  entry, whose text is fixed. The provider-side \<open>_validate_required_params\<close> raises a
  \<open>ValueError\<close> whose message contains the missing names, the provided names (or
  \<open>nenhum\<close>) and the expected names, each joined by commas.
\<close>

theorem missing_identifier_retried_three_times:
  assumes "\<not> truthy lead_id" and "\<not> truthy email"
    and "missing_params params required \<noteq> []"
  shows "get_lead_info tool lead_id email env =
           (Inl (ValueError ''Either lead_id or email must be provided''),
            \<lparr>inner = inner env, slept = slept env @ [1, 2], calls = calls env + 3\<rparr>)
       \<and> (\<exists>m. validate_required_params params required tool_name = Inl (ValueError m)
             \<and> str_in (join '', '' (missing_params params required)) m
             \<and> str_in (if params \<noteq> [] then join '', '' (dict_keys params) else ''nenhum'') m
             \<and> str_in (join '', '' required) m)"
  using get_lead_info_without_identifier [OF assms(1,2)]
    validate_required_params_message [OF assms(3)]
  by blast

theorem missing_identifier_retried_three_times_witness:
  "get_lead_info demo_tool None (Some '''') fresh_state =
     (Inl (ValueError ''Either lead_id or email must be provided''),
      \<lparr>inner = inner fresh_state, slept = [1, 2], calls = 3\<rparr>)
   \<and> (\<exists>m. validate_required_params [(''lead_id'', PNone), (''notes'', PStr ''x'')]
              [''lead_id'', ''status''] ''update_lead_status'' = Inl (ValueError m)
         \<and> str_in ''lead_id, status'' m \<and> str_in ''lead_id, notes'' m)"
  using missing_identifier_retried_three_times
    [of None "Some ''''" "[(''lead_id'', PNone), (''notes'', PStr ''x'')]"
        "[''lead_id'', ''status'']" demo_tool fresh_state "''update_lead_status''"]
  by (auto simp: truthy_def missing_params_def dict_keys_def dict_get_def fresh_state_def)

text \<open>
  The claim as stated fails: a call with neither identifier enters the body three times
  and sleeps twice before the error reaches the caller.
\<close>

theorem missing_identifier_single_attempt_counterexample:
  "get_lead_info demo_tool None None fresh_state =
     (Inl (ValueError ''Either lead_id or email must be provided''),
      fresh_state\<lparr>slept := [1, 2], calls := 3\<rparr>)
   \<and> \<not> (calls (snd (get_lead_info demo_tool None None fresh_state)) = 1
        \<and> slept (snd (get_lead_info demo_tool None None fresh_state)) = [])"
  using get_lead_info_without_identifier [of None None demo_tool fresh_state]
  by (simp add: truthy_def fresh_state_def)

subsection \<open>The server factory\<close>

lemma instance_key_inj:
  assumes "instance_key n b = instance_key n' b'"
  shows "n = n' \<and> b = b'"
proof -
  have "rev (instance_key n b) = rev (instance_key n' b')"
    using assms by simp
  then show ?thesis
    by (cases b; cases b') (simp_all add: instance_key_def str_of_bool_def)
qed

lemma wf_new_factory: "wf_factory new_factory"
  by (simp add: wf_factory_def new_factory_def)

lemma wf_initialize: "wf_factory f \<Longrightarrow> wf_factory (initialize f)"
  by (simp add: wf_factory_def initialize_def)

lemma wf_clear_cache: "wf_factory f \<Longrightarrow> wf_factory (clear_cache f)"
  by (simp add: wf_factory_def clear_cache_def)

lemma get_server_cached:
  assumes "settings f = Some ()" and "instances f (instance_key name b) = Some server"
  shows "get_server name b f = (Inr server, f)"
  using assms by (simp add: get_server_def)

lemma get_server_fresh:
  assumes "settings f = Some ()" and "instances f (instance_key name b) = None"
    and "name \<in> set server_names"
  shows "get_server name b f =
         (Inr \<lparr>obj_id = next_obj f, server_name = name, simulate_latency = b\<rparr>,
          f\<lparr>next_obj := next_obj f + 1,
            constructed := constructed f @ [\<lparr>obj_id = next_obj f, server_name = name,
                                             simulate_latency = b\<rparr>],
            instances := (instances f)(instance_key name b \<mapsto>
                            \<lparr>obj_id = next_obj f, server_name = name, simulate_latency = b\<rparr>)\<rparr>)"
  using assms by (simp add: get_server_def create_server_def Let_def)

lemma get_server_unknown:
  assumes "settings f = Some ()" and "instances f (instance_key name b) = None"
    and "name \<notin> set server_names"
  shows "get_server name b f =
         (Inl (ValueError (''Unknown server name: '' @ name @ ''. Available: ''
                            @ join '', '' server_names)), f)"
  using assms by (simp add: get_server_def create_server_def)

lemma get_server_cases [consumes 1, case_names cached fresh unknown]:
  assumes "settings f = Some ()"
  obtains (cached) server where "instances f (instance_key name b) = Some server"
      and "get_server name b f = (Inr server, f)"
  | (fresh) "instances f (instance_key name b) = None" and "name \<in> set server_names"
      and "get_server name b f =
         (Inr \<lparr>obj_id = next_obj f, server_name = name, simulate_latency = b\<rparr>,
          f\<lparr>next_obj := next_obj f + 1,
            constructed := constructed f @ [\<lparr>obj_id = next_obj f, server_name = name,
                                             simulate_latency = b\<rparr>],
            instances := (instances f)(instance_key name b \<mapsto>
                            \<lparr>obj_id = next_obj f, server_name = name, simulate_latency = b\<rparr>)\<rparr>)"
  | (unknown) "instances f (instance_key name b) = None" and "name \<notin> set server_names"
      and "\<exists>m. get_server name b f = (Inl (ValueError m), f)"
proof (cases "instances f (instance_key name b)")
  case (Some server)
  then show ?thesis using cached get_server_cached [OF assms] by blast
next
  case None
  show ?thesis
  proof (cases "name \<in> set server_names")
    case True
    then show ?thesis using fresh None get_server_fresh [OF assms None] by blast
  next
    case False
    then show ?thesis using unknown None get_server_unknown [OF assms None] by blast
  qed
qed

lemma wf_get_server:
  assumes "wf_factory f"
  shows "wf_factory (snd (get_server name b f))"
proof (cases "settings f")
  case None
  then show ?thesis using assms by (simp add: get_server_def)
next
  case (Some u)
  then have s: "settings f = Some ()" by simp
  from s show ?thesis
  proof (cases rule: get_server_cases [where name = name and b = b])
    case (cached server)
    then show ?thesis using assms by simp
  next
    case fresh
    show ?thesis
      using assms fresh(2)
      unfolding fresh(3) wf_factory_def
      by (auto simp: key_of_def less_Suc_eq)
  next
    case unknown
    then show ?thesis using assms by auto
  qed
qed

lemma settings_get_server: "settings (snd (get_server name b f)) = settings f"
  by (simp add: get_server_def create_server_def Let_def split: option.splits)

lemma settings_gets: "settings (gets reqs f) = settings f"
  by (induction reqs arbitrary: f) (auto simp: settings_get_server)

lemma wf_gets: "wf_factory f \<Longrightarrow> wf_factory (gets reqs f)"
  by (induction reqs arbitrary: f) (auto simp: wf_get_server)

lemma instances_get_server:
  assumes "instances f k = Some server"
  shows "instances (snd (get_server name b f)) k = Some server"
  using assms
  by (auto simp: get_server_def create_server_def Let_def split: option.splits)

lemma instances_gets:
  assumes "instances f k = Some server"
  shows "instances (gets reqs f) k = Some server"
  using assms by (induction reqs arbitrary: f) (auto simp: instances_get_server)

text \<open>
  Over a run of requests with no clearing in between, the objects built are built for
  pairwise different keys, none of which was cached when the run began.
\<close>

lemma constructed_gets:
  assumes "settings f = Some ()"
  shows "\<exists>new. constructed (gets reqs f) = constructed f @ new
               \<and> distinct (map key_of new)
               \<and> (\<forall>server \<in> set new. instances f (key_of server) = None)"
  using assms
proof (induction reqs arbitrary: f)
  case Nil
  show ?case by simp
next
  case (Cons req reqs)
  obtain name b where req: "req = (name, b)" by (cases req)
  from Cons.prems show ?case
  proof (cases rule: get_server_cases [where name = name and b = b])
    case (cached server)
    then show ?thesis using Cons.IH [OF Cons.prems] by (simp add: req)
  next
    case unknown
    then show ?thesis using Cons.IH [OF Cons.prems] by (auto simp: req)
  next
    case fresh
    let ?s = "\<lparr>obj_id = next_obj f, server_name = name, simulate_latency = b\<rparr>"
    let ?f' = "f\<lparr>next_obj := next_obj f + 1, constructed := constructed f @ [?s],
                  instances := (instances f)(instance_key name b \<mapsto> ?s)\<rparr>"
    have "settings ?f' = Some ()" using Cons.prems by simp
    from Cons.IH [OF this] obtain new where
      n1: "constructed (gets reqs ?f') = constructed ?f' @ new"
      and n2: "distinct (map key_of new)"
      and n3: "\<forall>server \<in> set new. instances ?f' (key_of server) = None"
      by blast
    have k: "key_of ?s = instance_key name b"
      by (simp add: key_of_def)
    have n4: "\<forall>server \<in> set new. key_of server \<noteq> instance_key name b
                \<and> instances f (key_of server) = None"
      using n3 by (auto split: if_splits)
    have "constructed (gets (req # reqs) f) = constructed f @ (?s # new)"
      using n1 by (simp add: req fresh(3))
    moreover have "distinct (map key_of (?s # new))"
      using n2 n4 k by auto
    moreover have "\<forall>server \<in> set (?s # new). instances f (key_of server) = None"
      using n4 k fresh(1) by auto
    ultimately show ?thesis by blast
  qed
qed

lemma get_server_after_clear:
  assumes s: "settings g = Some ()" and wf: "wf_factory g" and known: "name \<in> set server_names"
  shows "\<exists>server' g'. get_server name b (clear_cache g) = (Inr server', g')
           \<and> server' \<notin> set (constructed g)
           \<and> constructed g' = constructed g @ [server']
           \<and> instances g' (instance_key name b) = Some server'"
proof -
  let ?c = "clear_cache g"
  have "settings ?c = Some ()" and "instances ?c (instance_key name b) = None"
    using s by (simp_all add: clear_cache_def)
  from get_server_fresh [OF this known]
  have g: "get_server name b ?c =
         (Inr \<lparr>obj_id = next_obj ?c, server_name = name, simulate_latency = b\<rparr>,
          ?c\<lparr>next_obj := next_obj ?c + 1,
            constructed := constructed ?c @ [\<lparr>obj_id = next_obj ?c, server_name = name,
                                             simulate_latency = b\<rparr>],
            instances := (instances ?c)(instance_key name b \<mapsto>
                            \<lparr>obj_id = next_obj ?c, server_name = name, simulate_latency = b\<rparr>)\<rparr>)" .
  have "\<lparr>obj_id = next_obj ?c, server_name = name, simulate_latency = b\<rparr> \<notin> set (constructed g)"
    using wf by (auto simp: wf_factory_def clear_cache_def)
  then show ?thesis
    unfolding g by (simp add: clear_cache_def)
qed

lemma get_server_result_cached:
  assumes s: "settings f = Some ()" and g: "get_server name b f = (Inr server, f1)"
  shows "instances f1 (instance_key name b) = Some server" and "settings f1 = Some ()"
proof -
  from s have "instances f1 (instance_key name b) = Some server \<and> settings f1 = Some ()"
  proof (cases rule: get_server_cases [where name = name and b = b])
    case (cached server0)
    then show ?thesis using g s by simp
  next
    case fresh
    then show ?thesis using g s by auto
  next
    case unknown
    then show ?thesis using g by auto
  qed
  then show "instances f1 (instance_key name b) = Some server" and "settings f1 = Some ()"
    by simp_all
qed

lemma unknown_not_cached:
  assumes wf: "wf_factory f" and u: "name \<notin> set server_names"
  shows "instances f (instance_key name b) = None"
proof (cases "instances f (instance_key name b)")
  case None
  then show ?thesis .
next
  case (Some server)
  with wf have k: "instance_key name b = key_of server" and "server \<in> set (constructed f)"
    by (auto simp: wf_factory_def)
  with wf have "server_name server \<in> set server_names"
    by (auto simp: wf_factory_def)
  moreover have "name = server_name server"
    using instance_key_inj k by (auto simp: key_of_def)
  ultimately show ?thesis using u by simp
qed

lemma factory_run_facts:
  assumes s: "settings f = Some ()" and wf: "wf_factory f"
  shows "(\<forall>name b server f1 reqs.
            get_server name b f = (Inr server, f1)
            \<longrightarrow> get_server name b (gets reqs f1) = (Inr server, gets reqs f1))
       \<and> (\<forall>reqs. \<exists>new. constructed (gets reqs f) = constructed f @ new
               \<and> distinct (map key_of new)
               \<and> (\<forall>server \<in> set new. instances f (key_of server) = None))
       \<and> (\<forall>name b. name \<notin> set server_names
            \<longrightarrow> (\<exists>m. get_server name b f = (Inl (ValueError m), f)))
       \<and> (\<forall>name b server f1 reqs.
            name \<in> set server_names \<and> get_server name b f = (Inr server, f1)
            \<longrightarrow> (\<exists>server' f2.
                   get_server name b (clear_cache (gets reqs f1)) = (Inr server', f2)
                   \<and> server' \<noteq> server
                   \<and> server' \<notin> set (constructed (gets reqs f1))
                   \<and> constructed f2 = constructed (gets reqs f1) @ [server']))"
proof (intro conjI allI impI)
  fix name b server f1 reqs
  assume g: "get_server name b f = (Inr server, f1)"
  have "instances (gets reqs f1) (instance_key name b) = Some server"
    by (rule instances_gets) (rule get_server_result_cached [OF s g])
  moreover have "settings (gets reqs f1) = Some ()"
    by (simp add: settings_gets get_server_result_cached [OF s g])
  ultimately show "get_server name b (gets reqs f1) = (Inr server, gets reqs f1)"
    by (simp add: get_server_cached)
next
  fix reqs
  show "\<exists>new. constructed (gets reqs f) = constructed f @ new
           \<and> distinct (map key_of new)
           \<and> (\<forall>server \<in> set new. instances f (key_of server) = None)"
    by (rule constructed_gets [OF s])
next
  fix name b
  assume "name \<notin> set server_names"
  then show "\<exists>m. get_server name b f = (Inl (ValueError m), f)"
    using get_server_unknown [OF s unknown_not_cached [OF wf]] by blast
next
  fix name b server f1 reqs
  assume a: "name \<in> set server_names \<and> get_server name b f = (Inr server, f1)"
  then have g: "get_server name b f = (Inr server, f1)" and known: "name \<in> set server_names"
    by simp_all
  let ?g = "gets reqs f1"
  have f1: "f1 = snd (get_server name b f)" using g by simp
  have wf1: "wf_factory f1" unfolding f1 by (rule wf_get_server [OF wf])
  have wfg: "wf_factory ?g" by (rule wf_gets [OF wf1])
  have sg: "settings ?g = Some ()"
    by (simp add: settings_gets get_server_result_cached [OF s g])
  have "instances ?g (instance_key name b) = Some server"
    by (rule instances_gets) (rule get_server_result_cached [OF s g])
  with wfg have old: "server \<in> set (constructed ?g)"
    by (auto simp: wf_factory_def)
  from get_server_after_clear [OF sg wfg known, of b] obtain server' f2 where
    "get_server name b (clear_cache ?g) = (Inr server', f2)"
    and "server' \<notin> set (constructed ?g)"
    and "constructed f2 = constructed ?g @ [server']"
    by blast
  with old show "\<exists>server' f2.
                   get_server name b (clear_cache ?g) = (Inr server', f2)
                   \<and> server' \<noteq> server
                   \<and> server' \<notin> set (constructed ?g)
                   \<and> constructed f2 = constructed ?g @ [server']"
    by blast
qed

lemma get_server_answer_key:
  assumes s: "settings f = Some ()" and wf: "wf_factory f"
    and g: "get_server name b f = (Inr server, f1)"
  shows "server_name server = name \<and> simulate_latency server = b"
  using s
proof (cases rule: get_server_cases [where name = name and b = b])
  case (cached server0)
  with g have "server0 = server" by simp
  with cached(1) wf have "instance_key name b = key_of server"
    by (auto simp: wf_factory_def)
  then show ?thesis
    using instance_key_inj [of name b "server_name server" "simulate_latency server"]
    by (simp add: key_of_def)
next
  case fresh
  with g show ?thesis by auto
next
  case unknown
  with g show ?thesis by auto
qed

lemma get_server_builds:
  assumes s: "settings f = Some ()" and wf: "wf_factory f" and known: "name \<in> set server_names"
    and none: "\<forall>k server. instances f k = Some server
                 \<longrightarrow> \<not> (server_name server = name \<and> simulate_latency server = b)"
  shows "get_server name b f =
         (Inr \<lparr>obj_id = next_obj f, server_name = name, simulate_latency = b\<rparr>,
          f\<lparr>next_obj := next_obj f + 1,
            constructed := constructed f @ [\<lparr>obj_id = next_obj f, server_name = name,
                                             simulate_latency = b\<rparr>],
            instances := (instances f)(instance_key name b \<mapsto>
                            \<lparr>obj_id = next_obj f, server_name = name, simulate_latency = b\<rparr>)\<rparr>)
         \<and> \<lparr>obj_id = next_obj f, server_name = name, simulate_latency = b\<rparr>
             \<notin> set (constructed f)"
proof -
  have "instances f (instance_key name b) = None"
  proof (cases "instances f (instance_key name b)")
    case None
    then show ?thesis .
  next
    case (Some server)
    with wf have "instance_key name b = key_of server"
      by (auto simp: wf_factory_def)
    then have "server_name server = name \<and> simulate_latency server = b"
      using instance_key_inj [of name b "server_name server" "simulate_latency server"]
      by (simp add: key_of_def)
    with none Some show ?thesis by blast
  qed
  from get_server_fresh [OF s this known] show ?thesis
    using wf by (auto simp: wf_factory_def)
qed

text \<open>
  C9. In a state of the factory reached after \<open>initialize\<close>:
  \<^item> a successful \<open>get_server\<close> answers with an object whose \<open>server_name\<close> and
    \<open>simulate_latency\<close> are the requested name and flag;
  \<^item> when no cached object has the requested known name and flag, the request builds
    exactly one object, with that name and flag, which is none of those built before,
    and caches it;
  \<^item> a successful request is answered by the same object again after any further
    requests, with the class state unchanged by that answer;
  \<^item> the two latency modes of one name are answered by different objects;
  \<^item> over a run of requests the factory builds objects only for pairwise different
    keys that were not cached before;
  \<^item> a name outside the nine known ones raises a \<open>ValueError\<close> and changes nothing;
  \<^item> after \<open>clear_cache\<close> the same request builds an object that is none of those
    built before.
\<close>

theorem one_instance_per_key:
  assumes s: "settings f = Some ()" and wf: "wf_factory f"
  shows "(\<forall>name b server f1.
            get_server name b f = (Inr server, f1)
            \<longrightarrow> server_name server = name \<and> simulate_latency server = b)
       \<and> (\<forall>name b.
            name \<in> set server_names
            \<and> (\<forall>k server. instances f k = Some server
                   \<longrightarrow> \<not> (server_name server = name \<and> simulate_latency server = b))
            \<longrightarrow> (\<exists>f1. get_server name b f
                         = (Inr \<lparr>obj_id = next_obj f, server_name = name,
                                 simulate_latency = b\<rparr>, f1)
                    \<and> constructed f1
                        = constructed f @ [\<lparr>obj_id = next_obj f, server_name = name,
                                            simulate_latency = b\<rparr>]
                    \<and> \<lparr>obj_id = next_obj f, server_name = name, simulate_latency = b\<rparr>
                        \<notin> set (constructed f)))
       \<and> (\<forall>name b server f1 reqs.
            get_server name b f = (Inr server, f1)
            \<longrightarrow> get_server name b (gets reqs f1) = (Inr server, gets reqs f1))
       \<and> (\<forall>name server1 f1 reqs server2 f2.
            get_server name True f = (Inr server1, f1)
            \<and> get_server name False (gets reqs f1) = (Inr server2, f2)
            \<longrightarrow> server1 \<noteq> server2)
       \<and> (\<forall>reqs. \<exists>new. constructed (gets reqs f) = constructed f @ new
               \<and> distinct (map key_of new)
               \<and> distinct (map (\<lambda>server. (server_name server, simulate_latency server)) new)
               \<and> (\<forall>server \<in> set new. instances f (key_of server) = None))
       \<and> (\<forall>name b. name \<notin> set server_names
            \<longrightarrow> (\<exists>m. get_server name b f = (Inl (ValueError m), f)))
       \<and> (\<forall>name b server f1 reqs.
            name \<in> set server_names \<and> get_server name b f = (Inr server, f1)
            \<longrightarrow> (\<exists>server' f2.
                   get_server name b (clear_cache (gets reqs f1)) = (Inr server', f2)
                   \<and> server' \<noteq> server
                   \<and> server' \<notin> set (constructed (gets reqs f1))
                   \<and> constructed f2 = constructed (gets reqs f1) @ [server']))"
proof -
  note old = factory_run_facts [OF s wf]
  have a: "\<forall>name b server f1.
            get_server name b f = (Inr server, f1)
            \<longrightarrow> server_name server = name \<and> simulate_latency server = b"
    using get_server_answer_key [OF s wf] by blast
  have b: "\<forall>name b.
            name \<in> set server_names
            \<and> (\<forall>k server. instances f k = Some server
                   \<longrightarrow> \<not> (server_name server = name \<and> simulate_latency server = b))
            \<longrightarrow> (\<exists>f1. get_server name b f
                         = (Inr \<lparr>obj_id = next_obj f, server_name = name,
                                 simulate_latency = b\<rparr>, f1)
                    \<and> constructed f1
                        = constructed f @ [\<lparr>obj_id = next_obj f, server_name = name,
                                            simulate_latency = b\<rparr>]
                    \<and> \<lparr>obj_id = next_obj f, server_name = name, simulate_latency = b\<rparr>
                        \<notin> set (constructed f))"
  proof (intro allI impI)
    fix name b
    assume h: "name \<in> set server_names
            \<and> (\<forall>k server. instances f k = Some server
                   \<longrightarrow> \<not> (server_name server = name \<and> simulate_latency server = b))"
    from h have known: "name \<in> set server_names" and
      none: "\<forall>k server. instances f k = Some server
                   \<longrightarrow> \<not> (server_name server = name \<and> simulate_latency server = b)"
      by simp_all
    from get_server_builds [OF s wf known none]
    show "\<exists>f1. get_server name b f
                         = (Inr \<lparr>obj_id = next_obj f, server_name = name,
                                 simulate_latency = b\<rparr>, f1)
                    \<and> constructed f1
                        = constructed f @ [\<lparr>obj_id = next_obj f, server_name = name,
                                            simulate_latency = b\<rparr>]
                    \<and> \<lparr>obj_id = next_obj f, server_name = name, simulate_latency = b\<rparr>
                        \<notin> set (constructed f)"
      by simp
  qed
  have c: "\<forall>name server1 f1 reqs server2 f2.
            get_server name True f = (Inr server1, f1)
            \<and> get_server name False (gets reqs f1) = (Inr server2, f2)
            \<longrightarrow> server1 \<noteq> server2"
  proof (intro allI impI)
    fix name server1 f1 reqs server2 f2
    assume h: "get_server name True f = (Inr server1, f1)
            \<and> get_server name False (gets reqs f1) = (Inr server2, f2)"
    then have g1: "get_server name True f = (Inr server1, f1)"
      and g2: "get_server name False (gets reqs f1) = (Inr server2, f2)"
      by simp_all
    have f1: "f1 = snd (get_server name True f)" using g1 by simp
    have wfg: "wf_factory (gets reqs f1)"
      unfolding f1 by (rule wf_gets [OF wf_get_server [OF wf]])
    have sg: "settings (gets reqs f1) = Some ()"
      by (simp add: settings_gets get_server_result_cached [OF s g1])
    have "simulate_latency server1" using get_server_answer_key [OF s wf g1] by simp
    moreover have "\<not> simulate_latency server2"
      using get_server_answer_key [OF sg wfg g2] by simp
    ultimately show "server1 \<noteq> server2" by auto
  qed
  have d: "\<forall>reqs. \<exists>new. constructed (gets reqs f) = constructed f @ new
               \<and> distinct (map key_of new)
               \<and> distinct (map (\<lambda>server. (server_name server, simulate_latency server)) new)
               \<and> (\<forall>server \<in> set new. instances f (key_of server) = None)"
  proof
    fix reqs
    from old obtain new where n: "constructed (gets reqs f) = constructed f @ new"
      "distinct (map key_of new)" "\<forall>server \<in> set new. instances f (key_of server) = None"
      by blast
    have "map key_of new
          = map (\<lambda>p. instance_key (fst p) (snd p))
              (map (\<lambda>server. (server_name server, simulate_latency server)) new)"
      by (simp add: key_of_def)
    with n(2) have "distinct (map (\<lambda>server. (server_name server, simulate_latency server)) new)"
      by (metis distinct_map)
    with n show "\<exists>new. constructed (gets reqs f) = constructed f @ new
               \<and> distinct (map key_of new)
               \<and> distinct (map (\<lambda>server. (server_name server, simulate_latency server)) new)
               \<and> (\<forall>server \<in> set new. instances f (key_of server) = None)"
      by blast
  qed
  note o1 = old [THEN conjunct1]
    and o3 = old [THEN conjunct2, THEN conjunct2, THEN conjunct1]
    and o4 = old [THEN conjunct2, THEN conjunct2, THEN conjunct2]
  show ?thesis
    by (intro conjI a b o1 c d o3 o4)
qed

theorem one_instance_per_key_witness:
  "get_server ''mock_crm'' False factory0
     = (Inr \<lparr>obj_id = 0, server_name = ''mock_crm'', simulate_latency = False\<rparr>, factory1)
   \<and> get_server ''mock_crm'' False (gets further_requests factory1)
     = (Inr \<lparr>obj_id = 0, server_name = ''mock_crm'', simulate_latency = False\<rparr>,
        gets further_requests factory1)
   \<and> fst (get_server ''mock_crm'' True factory1)
     = Inr \<lparr>obj_id = 1, server_name = ''mock_crm'', simulate_latency = True\<rparr>
   \<and> (\<exists>m. get_server ''mock_billing'' True factory0 = (Inl (ValueError m), factory0))
   \<and> (\<exists>server' f2.
         get_server ''mock_crm'' False (clear_cache (gets further_requests factory1))
           = (Inr server', f2)
         \<and> server' \<noteq> \<lparr>obj_id = 0, server_name = ''mock_crm'', simulate_latency = False\<rparr>)"
proof -
  let ?s0 = "\<lparr>obj_id = 0, server_name = ''mock_crm'', simulate_latency = False\<rparr>"
  have s0: "settings factory0 = Some ()"
    by (simp add: factory0_def initialize_def)
  have wf0: "wf_factory factory0"
    unfolding factory0_def by (rule wf_initialize [OF wf_new_factory])
  have known: "''mock_crm'' \<in> set server_names"
    by (simp add: server_names_def)
  have unknown: "''mock_billing'' \<notin> set server_names"
    by (simp add: server_names_def)
  have empty0: "\<forall>k server. instances factory0 k = Some server
                  \<longrightarrow> \<not> (server_name server = ''mock_crm'' \<and> simulate_latency server = False)"
    by (simp add: factory0_def initialize_def)
  have n0: "next_obj factory0 = 0"
    by (simp add: factory0_def initialize_def new_factory_def)
  note t0 = one_instance_per_key [OF s0 wf0]
  note builds0 = t0 [THEN conjunct2, THEN conjunct1, rule_format]
    and same0 = t0 [THEN conjunct2, THEN conjunct2, THEN conjunct1, rule_format]
    and unknown0 = t0 [THEN conjunct2, THEN conjunct2, THEN conjunct2, THEN conjunct2,
                       THEN conjunct2, THEN conjunct1, rule_format]
    and cleared0 = t0 [THEN conjunct2, THEN conjunct2, THEN conjunct2, THEN conjunct2,
                       THEN conjunct2, THEN conjunct2, rule_format]
  from builds0 [OF conjI [OF known empty0]] obtain f1 where
    "get_server ''mock_crm'' False factory0
       = (Inr \<lparr>obj_id = next_obj factory0, server_name = ''mock_crm'',
               simulate_latency = False\<rparr>, f1)"
    by blast
  then have g0: "get_server ''mock_crm'' False factory0 = (Inr ?s0, factory1)"
    by (simp add: n0 factory1_def)
  from same0 [OF g0] have again:
    "get_server ''mock_crm'' False (gets further_requests factory1)
       = (Inr ?s0, gets further_requests factory1)"
    by blast
  from unknown0 [OF unknown] have bad:
    "\<exists>m. get_server ''mock_billing'' True factory0 = (Inl (ValueError m), factory0)"
    by blast
  from cleared0 [OF conjI [OF known g0]] have cleared:
    "\<exists>server' f2.
         get_server ''mock_crm'' False (clear_cache (gets further_requests factory1))
           = (Inr server', f2)
         \<and> server' \<noteq> ?s0"
    by blast
  have s1: "settings factory1 = Some ()"
    by (simp add: factory1_def settings_get_server s0)
  have wf1: "wf_factory factory1"
    unfolding factory1_def by (rule wf_get_server [OF wf0])
  have i0: "instances factory0 (instance_key ''mock_crm'' False) = None"
    by (simp add: factory0_def initialize_def)
  have f1: "factory1 = factory0\<lparr>next_obj := 1, constructed := constructed factory0 @ [?s0],
                 instances := (instances factory0)(instance_key ''mock_crm'' False \<mapsto> ?s0)\<rparr>"
    unfolding factory1_def get_server_fresh [OF s0 i0 known] by (simp add: n0)
  have empty1: "\<forall>k server. instances factory1 k = Some server
                  \<longrightarrow> \<not> (server_name server = ''mock_crm'' \<and> simulate_latency server = True)"
    by (simp add: f1 factory0_def initialize_def)
  have n1: "next_obj factory1 = 1"
    by (simp add: f1)
  note t1 = one_instance_per_key [OF s1 wf1]
  note builds1 = t1 [THEN conjunct2, THEN conjunct1, rule_format]
  from builds1 [OF conjI [OF known empty1]] obtain f2 where
    "get_server ''mock_crm'' True factory1
       = (Inr \<lparr>obj_id = next_obj factory1, server_name = ''mock_crm'',
               simulate_latency = True\<rparr>, f2)"
    by blast
  then have other: "fst (get_server ''mock_crm'' True factory1)
     = Inr \<lparr>obj_id = 1, server_name = ''mock_crm'', simulate_latency = True\<rparr>"
    by (simp add: n1)
  from g0 again other bad cleared show ?thesis
    by (intro conjI)
qed

subsection \<open>Dispatch of an unknown tool\<close>

lemma dict_get_None_iff: "dict_get d k = None \<longleftrightarrow> k \<notin> set (dict_keys d)"
  by (simp add: dict_get_def dict_keys_def map_of_eq_None_iff)

lemma similar_tools_set:
  "set (similar_tools tool_name available) =
   {x \<in> set available. str_in (lower tool_name) (lower x) \<or> str_in (lower x) (lower tool_name)}"
  by (auto simp: similar_tools_def)

text \<open>
  C4. A tool name that is not a key of \<open>self.tools\<close> makes \<open>call_tool\<close> raise a
  \<open>ValueError\<close>, never a \<open>RuntimeError\<close> of the transport, with the state untouched: no
  direct call and no HTTP request was made. After the sentence naming the tool, the
  message lists the first five registered names that contain the requested name or are
  contained in it, compared in lower case; when there is no such name it lists the first
  ten registered names; when nothing is registered it says so.
\<close>

theorem unknown_tool_value_error:
  assumes "tool_name \<notin> set (dict_keys (tools t))"
  shows "\<exists>tail. call_tool t tool_name parameters st
                  = (Inl (ValueError (''Tool '' @ [CHR 0x27] @ tool_name @ [CHR 0x27] @ '' n'' @ [CHR 0xE3] @ ''o encontrada.'' @ tail)), st)
     \<and> (similar_tools tool_name (dict_keys (tools t)) \<noteq> []
          \<longrightarrow> tail = '' Tools similares dispon'' @ [CHR 0xED] @ ''veis: ''
                   @ join '', '' (take 5 (similar_tools tool_name (dict_keys (tools t)))))
     \<and> (similar_tools tool_name (dict_keys (tools t)) = [] \<and> tools t \<noteq> []
          \<longrightarrow> tail = '' Tools dispon'' @ [CHR 0xED] @ ''veis: '' @ join '', '' (take 10 (dict_keys (tools t))))
     \<and> (tools t = [] \<longrightarrow> tail = '' Nenhuma tool dispon'' @ [CHR 0xED] @ ''vel.'')
     \<and> length (take 5 (similar_tools tool_name (dict_keys (tools t)))) \<le> 5
     \<and> length (take 10 (dict_keys (tools t))) \<le> 10
     \<and> set (similar_tools tool_name (dict_keys (tools t)))
         = {x \<in> set (dict_keys (tools t)).
              str_in (lower tool_name) (lower x) \<or> str_in (lower x) (lower tool_name)}"
proof -
  have "dict_get (tools t) tool_name = None"
    using assms by (simp add: dict_get_None_iff)
  then have c: "call_tool t tool_name parameters st
                = (Inl (ValueError (not_found_message tool_name (dict_keys (tools t)))), st)"
    by (simp add: call_tool_def)
  define sim where "sim = similar_tools tool_name (dict_keys (tools t))"
  define tail where
    "tail = (if sim \<noteq> [] then '' Tools similares dispon'' @ [CHR 0xED] @ ''veis: '' @ join '', '' (take 5 sim)
             else if tools t \<noteq> [] then '' Tools dispon'' @ [CHR 0xED] @ ''veis: '' @ join '', '' (take 10 (dict_keys (tools t)))
             else '' Nenhuma tool dispon'' @ [CHR 0xED] @ ''vel.'')"
  have k: "dict_keys (tools t) = [] \<longleftrightarrow> tools t = []"
    by (simp add: dict_keys_def)
  have e: "tools t = [] \<Longrightarrow> sim = []"
    by (simp add: sim_def similar_tools_def dict_keys_def)
  have m: "not_found_message tool_name (dict_keys (tools t))
           = ''Tool '' @ [CHR 0x27] @ tool_name @ [CHR 0x27] @ '' n'' @ [CHR 0xE3] @ ''o encontrada.'' @ tail"
    by (simp add: not_found_message_def Let_def tail_def sim_def [symmetric] k)
  have f1: "call_tool t tool_name parameters st
          = (Inl (ValueError (''Tool '' @ [CHR 0x27] @ tool_name @ [CHR 0x27] @ '' n'' @ [CHR 0xE3] @ ''o encontrada.'' @ tail)), st)"
    unfolding c m ..
  have f2: "sim \<noteq> [] \<longrightarrow> tail = '' Tools similares dispon'' @ [CHR 0xED] @ ''veis: '' @ join '', '' (take 5 sim)"
    by (simp add: tail_def)
  have f3: "sim = [] \<and> tools t \<noteq> []
                 \<longrightarrow> tail = '' Tools dispon'' @ [CHR 0xED] @ ''veis: '' @ join '', '' (take 10 (dict_keys (tools t)))"
    by (simp add: tail_def)
  have f4: "tools t = [] \<longrightarrow> tail = '' Nenhuma tool dispon'' @ [CHR 0xED] @ ''vel.''"
    using e by (simp add: tail_def)
  have f5: "length (take 5 sim) \<le> 5" and f6: "length (take 10 (dict_keys (tools t))) \<le> 10"
    by simp_all
  have f7: "set sim = {x \<in> set (dict_keys (tools t)).
              str_in (lower tool_name) (lower x) \<or> str_in (lower x) (lower tool_name)}"
    unfolding sim_def by (rule similar_tools_set)
  show ?thesis
    unfolding sim_def [symmetric]
    by (rule exI [of _ tail]) (intro conjI f1 f2 f3 f4 f5 f6 f7)
qed

lemma demo_keys:
  "dict_keys (tools demo_manager)
   = [''get_lead_info'', ''update_lead_status'', ''get_sales_history'', ''concluir_compra'']"
  by (simp add: demo_manager_def tools_by_name_def crm_tool_config_def dict_keys_def)

lemma demo_similar:
  "similar_tools ''Get_Lead'' (dict_keys (tools demo_manager)) = [''get_lead_info'']"
  unfolding demo_keys by code_simp

theorem unknown_tool_value_error_witness:
  "call_tool demo_manager ''Get_Lead'' None idle
   = (Inl (ValueError (''Tool 'Get_Lead' n'' @ [CHR 0xE3] @ ''o encontrada. Tools similares dispon'' @ [CHR 0xED] @ ''veis: get_lead_info'')), idle)"
proof -
  have u: "''Get_Lead'' \<notin> set (dict_keys (tools demo_manager))"
    unfolding demo_keys by simp
  from unknown_tool_value_error [OF u, of None idle] obtain tail where
    c: "call_tool demo_manager ''Get_Lead'' None idle
        = (Inl (ValueError (''Tool '' @ [CHR 0x27] @ ''Get_Lead'' @ [CHR 0x27] @ '' n'' @ [CHR 0xE3] @ ''o encontrada.'' @ tail)), idle)"
    and t: "similar_tools ''Get_Lead'' (dict_keys (tools demo_manager)) \<noteq> []
            \<longrightarrow> tail = '' Tools similares dispon'' @ [CHR 0xED] @ ''veis: ''
                 @ join '', '' (take 5 (similar_tools ''Get_Lead'' (dict_keys (tools demo_manager))))"
    by blast
  have "tail = '' Tools similares dispon'' @ [CHR 0xED] @ ''veis: '' @ ''get_lead_info''"
    using t unfolding demo_similar by simp
  then show ?thesis
    unfolding c by simp
qed

subsection \<open>Conversations and metrics\<close>

lemma add_message_fields:
  "conv_id (fst (add_message clk r text aid md (c, n))) = conv_id c"
  "updated_at (fst (add_message clk r text aid md (c, n))) = clk (n + 1)"
  "snd (add_message clk r text aid md (c, n)) = n + 2"
  "current_stage (fst (add_message clk r text aid md (c, n))) = current_stage c"
  "metadata (fst (add_message clk r text aid md (c, n))) = metadata c"
  by (simp_all add: add_message_def Let_def)

lemma setters_fields:
  "conv_id (set_current_stage st c) = conv_id c"
  "conv_id (set_active_agent a c) = conv_id c"
  "conv_id (set_metadata k v c) = conv_id c"
  "updated_at (set_current_stage st c) = updated_at c"
  "updated_at (set_active_agent a c) = updated_at c"
  "updated_at (set_metadata k v c) = updated_at c"
  "current_stage (set_current_stage st c) = Member st"
  "current_stage (set_active_agent a c) = current_stage c"
  "current_stage (set_metadata k v c) = current_stage c"
  "metadata (set_current_stage st c) = metadata c"
  "metadata (set_active_agent a c) = metadata c"
  "metadata (set_metadata k v c) = dict_set k v (metadata c)"
  by (simp_all add: set_current_stage_def set_active_agent_def set_metadata_def)

lemma track_stage_transition_plain:
  "track_stage_transition sur c (PlainValue s) new t m
   = Inl (AttributeError ([CHR 0x27] @ ''str' object has no attribute 'value'' @ [CHR 0x27]))"
  by (simp add: track_stage_transition_def)

lemma track_stage_transition_member:
  "\<exists>c' m'. track_stage_transition sur c (Member old) new t m = Inr (c', m')
     \<and> conv_id c' = conv_id c \<and> updated_at c' = updated_at c
     \<and> current_stage c' = current_stage c
     \<and> closed_sales m' = closed_sales m
     \<and> conversations_total m' = conversations_total m
     \<and> completed_conversations m' = completed_conversations m"
  by (simp add: track_stage_transition_def Let_def setters_fields
        split: option.splits pyval.splits)

lemma track_closing_fields:
  "conv_id (fst (track_closing sur result new x)) = conv_id (fst x)"
  "updated_at (fst (track_closing sur result new x)) = updated_at (fst x)"
  "current_stage (fst (track_closing sur result new x)) = current_stage (fst x)"
  "conversations_total (fst (snd (track_closing sur result new x)))
   = conversations_total (fst (snd x))"
  "closed_sales (fst (snd (track_closing sur result new x)))
   = closed_sales (fst (snd x))
     + (if new = CLOSING \<and> ''closing_agent'' \<in> set (agents_used result) then 1 else 0)"
  by (cases x; simp add: track_closing_def Let_def setters_fields)+

lemma dict_get_set_same: "dict_get (dict_set k v d) k = Some v"
  by (induction d) (auto simp: dict_get_def)

lemma dict_get_set_other: "k \<noteq> k' \<Longrightarrow> dict_get (dict_set k v d) k' = dict_get d k'"
  by (induction d) (auto simp: dict_get_def)

lemma dict_keys_set:
  "dict_keys (dict_set k v d)
   = (if k \<in> set (dict_keys d) then dict_keys d else dict_keys d @ [k])"
  by (induction d) (force simp: dict_keys_def)+

lemma track_closing_flag:
  assumes "new = CLOSING" and "''closing_agent'' \<in> set (agents_used result)"
  shows "dict_get (metadata (fst (track_closing sur result new x))) ''sale_closed''
         = Some (PBool True)"
    and "dict_get (metadata (fst (track_closing sur result new x))) ''closed_at''
         = Some (PFloat (clock sur (snd (snd x))))"
  using assms
  by (cases x; simp add: track_closing_def Let_def setters_fields dict_get_set_same
        dict_get_set_other)+

lemma track_completion_fields:
  "conv_id (fst (track_completion sur new x)) = conv_id (fst x)"
  "updated_at (fst (track_completion sur new x)) = updated_at (fst x)"
  "current_stage (fst (track_completion sur new x)) = current_stage (fst x)"
  "conversations_total (fst (snd (track_completion sur new x)))
   = conversations_total (fst (snd x))"
  "closed_sales (fst (snd (track_completion sur new x))) = closed_sales (fst (snd x))"
  "new \<noteq> COMPLETED \<Longrightarrow> track_completion sur new x = x"
  by (cases x; simp add: track_completion_def setters_fields)+

lemma stage_mapping_not_completed: "stage_mapping a \<noteq> COMPLETED"
  by (simp add: stage_mapping_def)

lemma add_agent_response_fields:
  "conv_id (fst (add_agent_response sur result (c, n))) = conv_id c"
  "current_stage (fst (add_agent_response sur result (c, n))) = current_stage c"
  "updated_at (fst (add_agent_response sur result (c, n)))
   = (if response result \<noteq> [] then clock sur (n + 1) else updated_at c)"
  "snd (add_agent_response sur result (c, n)) = (if response result \<noteq> [] then n + 2 else n)"
  by (simp_all add: add_agent_response_def add_message_fields)

lemma track_if_changed_plain:
  assumes "s \<noteq> stage_value new"
  shows "track_if_changed sur c (PlainValue s) new t m
         = Inl (AttributeError ([CHR 0x27] @ ''str' object has no attribute 'value''
                                @ [CHR 0x27]))"
  using assms by (simp add: track_if_changed_def track_stage_transition_plain)

lemma track_if_changed_passes:
  assumes "old = Member m0 \<or> field_value old = stage_value new"
  shows "\<exists>c' m'. track_if_changed sur c old new t m = Inr (c', m')
     \<and> conv_id c' = conv_id c \<and> updated_at c' = updated_at c
     \<and> closed_sales m' = closed_sales m
     \<and> conversations_total m' = conversations_total m"
proof (cases "field_value old \<noteq> stage_value new")
  case False
  then show ?thesis by (simp add: track_if_changed_def)
next
  case True
  with assms have "old = Member m0" by blast
  with True track_stage_transition_member [of sur c m0 new t m] show ?thesis
    by (auto simp: track_if_changed_def)
qed

text \<open>
  Where the stage changes away from the plain string the conversation was constructed
  with, the turn ends in the \<open>AttributeError\<close> with the metrics as they were.
\<close>

lemma after_swarm_raises:
  assumes "s \<noteq> stage_value (stage_mapping (last_agent_of result))"
  shows "fst (after_swarm sur result (PlainValue s) t c orch)
           = Inl (AttributeError ([CHR 0x27] @ ''str' object has no attribute 'value''
                                  @ [CHR 0x27]))"
    and "metrics (snd (snd (after_swarm sur result (PlainValue s) t c orch))) = metrics orch"
    and "conv_id (fst (snd (after_swarm sur result (PlainValue s) t c orch))) = conv_id c"
    and "current_stage (fst (snd (after_swarm sur result (PlainValue s) t c orch)))
           = current_stage c"
  by (simp_all add: after_swarm_def Let_def track_if_changed_plain [OF assms]
        add_agent_response_fields)

lemma after_swarm_passes:
  assumes "old = Member m \<or> field_value old = stage_value (stage_mapping (last_agent_of result))"
  shows "\<exists>r. fst (after_swarm sur result old t c orch) = Inr r"
    and "conv_id (fst (snd (after_swarm sur result old t c orch))) = conv_id c"
    and "current_stage (fst (snd (after_swarm sur result old t c orch)))
           = Member (stage_mapping (last_agent_of result))"
    and "closed_sales (metrics (snd (snd (after_swarm sur result old t c orch))))
           = closed_sales (metrics orch)
             + (if stage_mapping (last_agent_of result) = CLOSING
                   \<and> ''closing_agent'' \<in> set (agents_used result) then 1 else 0)"
    and "conversations_total (metrics (snd (snd (after_swarm sur result old t c orch))))
           = conversations_total (metrics orch)"
    and "stage_mapping (last_agent_of result) = CLOSING
         \<and> ''closing_agent'' \<in> set (agents_used result)
         \<longrightarrow> dict_get (metadata (fst (snd (after_swarm sur result old t c orch))))
               ''sale_closed'' = Some (PBool True)"
proof -
  let ?new = "stage_mapping (last_agent_of result)"
  let ?c1n = "add_agent_response sur result (c, clock_reads orch)"
  from track_if_changed_passes [OF assms, of sur "fst ?c1n" t "metrics orch"]
  obtain c2 m2 where
    tr: "track_if_changed sur (fst ?c1n) old ?new t (metrics orch) = Inr (c2, m2)"
    and c2: "conv_id c2 = conv_id c"
    and m2: "closed_sales m2 = closed_sales (metrics orch)"
            "conversations_total m2 = conversations_total (metrics orch)"
    by (auto simp: add_agent_response_fields)
  define fin where
    "fin = track_closing sur result ?new
             (set_active_agent (last_agent_of result) (set_current_stage ?new c2),
              m2\<lparr>agents_usage := foldl (\<lambda>d a. bump a d) (agents_usage m2) (agents_used result)\<rparr>,
              snd ?c1n)"
  have r: "\<exists>r. fst (after_swarm sur result old t c orch) = Inr r"
    by (simp add: after_swarm_def Let_def tr)
  have eq: "snd (after_swarm sur result old t c orch)
            = (fst fin, orch\<lparr>metrics := fst (snd fin), clock_reads := snd (snd fin)\<rparr>)"
    by (simp add: after_swarm_def Let_def tr fin_def
          track_completion_fields(6) [OF stage_mapping_not_completed])
  show "\<exists>r. fst (after_swarm sur result old t c orch) = Inr r"
    by (rule r)
  show "conv_id (fst (snd (after_swarm sur result old t c orch))) = conv_id c"
    unfolding eq by (simp add: fin_def track_closing_fields setters_fields c2)
  show "current_stage (fst (snd (after_swarm sur result old t c orch))) = Member ?new"
    unfolding eq by (simp add: fin_def track_closing_fields setters_fields)
  show "closed_sales (metrics (snd (snd (after_swarm sur result old t c orch))))
           = closed_sales (metrics orch)
             + (if ?new = CLOSING \<and> ''closing_agent'' \<in> set (agents_used result)
                then 1 else 0)"
    unfolding eq by (simp add: fin_def track_closing_fields m2)
  show "conversations_total (metrics (snd (snd (after_swarm sur result old t c orch))))
           = conversations_total (metrics orch)"
    unfolding eq by (simp add: fin_def track_closing_fields m2)
  show "?new = CLOSING \<and> ''closing_agent'' \<in> set (agents_used result)
         \<longrightarrow> dict_get (metadata (fst (snd (after_swarm sur result old t c orch))))
               ''sale_closed'' = Some (PBool True)"
  proof
    assume a: "?new = CLOSING \<and> ''closing_agent'' \<in> set (agents_used result)"
    then have a1: "?new = CLOSING" and a2: "''closing_agent'' \<in> set (agents_used result)"
      by simp_all
    show "dict_get (metadata (fst (snd (after_swarm sur result old t c orch))))
               ''sale_closed'' = Some (PBool True)"
      unfolding eq fst_conv fin_def by (rule track_closing_flag(1) [OF a1 a2])
  qed
qed

lemma after_swarm_frame:
  "swarm_calls (snd (snd (after_swarm sur result old t c orch))) = swarm_calls orch"
  "uuids_drawn (snd (snd (after_swarm sur result old t c orch))) = uuids_drawn orch"
  "conversations (snd (snd (after_swarm sur result old t c orch))) = conversations orch"
  by (simp_all add: after_swarm_def Let_def split: sum.splits)

lemma after_swarm_updated_at:
  "updated_at (fst (snd (after_swarm sur result old t c orch)))
   = (if response result \<noteq> [] then clock sur (clock_reads orch + 1) else updated_at c)"
proof (cases "old = Member (case old of Member m \<Rightarrow> m | _ \<Rightarrow> FAQ)
              \<or> field_value old = stage_value (stage_mapping (last_agent_of result))")
  case True
  let ?new = "stage_mapping (last_agent_of result)"
  let ?c1n = "add_agent_response sur result (c, clock_reads orch)"
  from track_if_changed_passes [OF True, of sur "fst ?c1n" t "metrics orch"]
  obtain c2 m2 where
    tr: "track_if_changed sur (fst ?c1n) old ?new t (metrics orch) = Inr (c2, m2)"
    and u: "updated_at c2 = updated_at (fst ?c1n)"
    by blast
  show ?thesis
    by (simp add: after_swarm_def Let_def tr u add_agent_response_fields
          track_closing_fields track_completion_fields setters_fields)
next
  case False
  then obtain s where old: "old = PlainValue s"
    and ne: "s \<noteq> stage_value (stage_mapping (last_agent_of result))"
    by (cases old) auto
  show ?thesis
    unfolding old
    by (simp add: after_swarm_def Let_def track_if_changed_plain [OF ne]
          add_agent_response_fields)
qed

end
